theory Spec2Isabelle
  imports Main
begin

section \<open>JavaScript values\<close>

text \<open>
  The values the runtime handles. Numbers are the integer-valued ones, with the one
  non-number \<open>NaN\<close> kept apart; a function is known by its identity, an object by its
  address in the object store.
\<close>

datatype jsval =
    VUndefined
  | VNull
  | VBool bool
  | VNum int
  | VNaN
  | VStr string
  | VFun nat
  | VObj nat

text \<open>The operator \<open>===\<close>: identity on references, value equality on primitives, and
  \<open>NaN === NaN\<close> is false.\<close>

definition strict_eq :: "jsval \<Rightarrow> jsval \<Rightarrow> bool" where
  "strict_eq a b = (a = b \<and> a \<noteq> VNaN)"

text \<open>\<open>Number.isNaN\<close>.\<close>

definition isNaN :: "jsval \<Rightarrow> bool" where
  "isNaN v = (v = VNaN)"

text \<open>Truthiness, as tested by \<open>if (v)\<close>, \<open>v && ...\<close> and \<open>v || ...\<close>.\<close>

fun truthy :: "jsval \<Rightarrow> bool" where
  "truthy VUndefined = False"
| "truthy VNull = False"
| "truthy (VBool b) = b"
| "truthy (VNum n) = (n \<noteq> 0)"
| "truthy VNaN = False"
| "truthy (VStr s) = (s \<noteq> [])"
| "truthy (VFun f) = True"
| "truthy (VObj a) = True"

text \<open>A JavaScript \<open>Set\<close> keeps its members in insertion order and adds a member once.\<close>

definition set_add :: "'a \<Rightarrow> 'a list \<Rightarrow> 'a list" where
  "set_add x xs = (if x \<in> set xs then xs else xs @ [x])"


section \<open>The batch updater\<close>

text \<open>
  \<open>_BatchUpdater\<close>: the queue of pending update functions, the flag \<open>_isUpdating\<close>, and,
  for the platform, the number of \<open>requestAnimationFrame\<close> callbacks that are registered
  and have not fired yet. \<open>executed\<close> records every update function in the order it was
  called, and \<open>failures\<close> the ones whose exception \<open>_executeQueue\<close> caught and logged.
\<close>

record batch =
  queue :: "nat list"
  isUpdating :: bool
  frames :: nat
  executed :: "nat list"
  failures :: "nat list"

definition batch_init :: batch where
  "batch_init = \<lparr>queue = [], isUpdating = False, frames = 0, executed = [], failures = []\<rparr>"

definition scheduleUpdate :: "batch \<Rightarrow> batch" where
  "scheduleUpdate b = b\<lparr>isUpdating := True, frames := frames b + 1\<rparr>"

definition add :: "jsval \<Rightarrow> batch \<Rightarrow> batch" where
  "add fn b =
     (case fn of
        VFun f \<Rightarrow>
          (let b1 = b\<lparr>queue := set_add f (queue b)\<rparr>
           in if \<not> isUpdating b1 then scheduleUpdate b1 else b1)
      | _ \<Rightarrow> b)"

text \<open>
  An update function is a closure. All it can do to the updater is call \<open>add\<close> (through
  the \<open>notify\<close> of a store it writes to) and return or throw, so its behaviour towards the
  updater is the list of functions it adds and whether it throws at the end.
\<close>

record behaviour =
  adds :: "jsval list"
  throws :: bool

fun add_all :: "jsval list \<Rightarrow> batch \<Rightarrow> batch" where
  "add_all [] b = b"
| "add_all (fn # fns) b = add_all fns (add fn b)"

definition call_fn :: "(nat \<Rightarrow> behaviour) \<Rightarrow> nat \<Rightarrow> batch \<Rightarrow> batch" where
  "call_fn body f b =
     (let b1 = add_all (adds (body f)) (b\<lparr>executed := executed b @ [f]\<rparr>)
      in if throws (body f) then b1\<lparr>failures := failures b1 @ [f]\<rparr> else b1)"

fun forEach_call :: "(nat \<Rightarrow> behaviour) \<Rightarrow> nat list \<Rightarrow> batch \<Rightarrow> batch" where
  "forEach_call body [] b = b"
| "forEach_call body (f # fs) b = forEach_call body fs (call_fn body f b)"

definition executeQueue :: "(nat \<Rightarrow> behaviour) \<Rightarrow> batch \<Rightarrow> batch" where
  "executeQueue body b =
     (let queueCopy = queue b;
          b1 = b\<lparr>queue := []\<rparr>;
          b2 = forEach_call body queueCopy b1
      in b2\<lparr>isUpdating := False\<rparr>)"

text \<open>The platform fires one registered animation-frame callback.\<close>

definition frame :: "(nat \<Rightarrow> behaviour) \<Rightarrow> batch \<Rightarrow> batch" where
  "frame body b = (if frames b = 0 then b else executeQueue body (b\<lparr>frames := frames b - 1\<rparr>))"

text \<open>
  The states the updater reaches from its initial state: code outside a flush calls
  \<open>add\<close>, and the platform fires a registered callback.
\<close>

inductive reachable :: "(nat \<Rightarrow> behaviour) \<Rightarrow> batch \<Rightarrow> bool" for body where
  r_init: "reachable body batch_init"
| r_add: "reachable body b \<Longrightarrow> reachable body (add fn b)"
| r_frame: "reachable body b \<Longrightarrow> 0 < frames b \<Longrightarrow> reachable body (frame body b)"


section \<open>Dependency nodes\<close>

text \<open>\<open>_Dependency\<close>: the subscriber set and the map from a variable to its own subscriber
  set.\<close>

record dependency =
  subscribers :: "nat list"
  varSubs :: "jsval \<rightharpoonup> nat list"

definition new_Dependency :: dependency where
  "new_Dependency = \<lparr>subscribers = [], varSubs = Map.empty\<rparr>"

definition subscribe :: "jsval \<Rightarrow> jsval \<Rightarrow> 'a dependency_scheme \<Rightarrow> 'a dependency_scheme" where
  "subscribe fn variable d =
     (case fn of
        VFun f \<Rightarrow>
          (let d1 = d\<lparr>subscribers := set_add f (subscribers d)\<rparr>
           in if truthy variable
              then (let d2 = (if varSubs d1 variable = None
                              then d1\<lparr>varSubs := (varSubs d1)(variable \<mapsto> [])\<rparr> else d1)
                    in d2\<lparr>varSubs := (varSubs d2)(variable \<mapsto> set_add f (the (varSubs d2 variable)))\<rparr>)
              else d1)
      | _ \<Rightarrow> d)"

definition notify_targets :: "jsval \<Rightarrow> 'a dependency_scheme \<Rightarrow> nat list" where
  "notify_targets variable d =
     (if truthy variable \<and> varSubs d variable \<noteq> None
      then the (varSubs d variable) else subscribers d)"

definition notify :: "jsval \<Rightarrow> 'a dependency_scheme \<Rightarrow> batch \<Rightarrow> batch" where
  "notify variable d b =
     (let targets = notify_targets variable d
      in if length targets = 0 then b else add_all (map VFun targets) b)"

text \<open>The operations of a node, for sequences of calls.\<close>

datatype dep_op = Subscribe jsval jsval | Notify jsval

fun dep_step :: "dep_op \<Rightarrow> dependency \<times> batch \<Rightarrow> dependency \<times> batch" where
  "dep_step (Subscribe fn variable) (d, b) = (subscribe fn variable d, b)"
| "dep_step (Notify variable) (d, b) = (d, notify variable d b)"

fun dep_run :: "dep_op list \<Rightarrow> dependency \<times> batch \<Rightarrow> dependency \<times> batch" where
  "dep_run [] s = s"
| "dep_run (x # xs) s = dep_run xs (dep_step x s)"

text \<open>The global subscriber set contains every per-variable subscriber set.\<close>

definition dep_inv :: "'a dependency_scheme \<Rightarrow> bool" where
  "dep_inv d = (\<forall>k fs. varSubs d k = Some fs \<longrightarrow> set fs \<subseteq> set (subscribers d))"


section \<open>Boxed cells\<close>

text \<open>
  \<open>window.ref\<close>: the closure variables \<open>value\<close> and \<open>dep\<close> of one cell. The getter and the
  setter of \<open>value\<close> work on the cell, the stack \<open>_activeFns\<close> and the batch updater.
\<close>

record cell =
  cvalue :: jsval
  cdep :: dependency

definition ref :: "jsval \<Rightarrow> cell" where
  "ref initialValue = \<lparr>cvalue = initialValue, cdep = new_Dependency\<rparr>"

definition ref_get :: "jsval list \<Rightarrow> cell \<Rightarrow> jsval \<times> cell" where
  "ref_get activeFns c =
     (if length activeFns > 0
      then (cvalue c, c\<lparr>cdep := subscribe (last activeFns) VNull (cdep c)\<rparr>)
      else (cvalue c, c))"

definition ref_set :: "jsval \<Rightarrow> cell \<times> batch \<Rightarrow> cell \<times> batch" where
  "ref_set newValue s =
     (case s of (c, b) \<Rightarrow>
        if \<not> strict_eq (cvalue c) newValue
        then (c\<lparr>cvalue := newValue\<rparr>, notify VNull (cdep c) b)
        else (c, b))"


section \<open>The expression parser\<close>

text \<open>
  A character is a code unit below 256; text with other code units is outside the
  model. \<open>isWordChar\<close> is the class \<open>[\w$]\<close> and \<open>isIdentStart\<close> the class
  \<open>[a-zA-Z_$]\<close> of \<open>_VARIABLE_REGEX\<close>; \<open>isSpace\<close> is the white space \<open>trim\<close> removes and
  \<open>parseInt\<close> skips: tab, line feed, vertical tab, form feed, carriage return, space
  and no-break space.
\<close>

definition code :: "char \<Rightarrow> nat" where
  "code c = of_char c"

definition isDigit :: "char \<Rightarrow> bool" where
  "isDigit c = (code (CHR ''0'') \<le> code c \<and> code c \<le> code (CHR ''9''))"

definition isLetter :: "char \<Rightarrow> bool" where
  "isLetter c = ((code (CHR ''a'') \<le> code c \<and> code c \<le> code (CHR ''z''))
                 \<or> (code (CHR ''A'') \<le> code c \<and> code c \<le> code (CHR ''Z'')))"

definition isIdentStart :: "char \<Rightarrow> bool" where
  "isIdentStart c = (isLetter c \<or> c = CHR ''_'' \<or> c = CHR ''$'')"

definition isWordChar :: "char \<Rightarrow> bool" where
  "isWordChar c = (isLetter c \<or> isDigit c \<or> c = CHR ''_'' \<or> c = CHR ''$'')"

definition isSpace :: "char \<Rightarrow> bool" where
  "isSpace c = (c = CHR '' '' \<or> c = CHR 0x09 \<or> c = CHR 0x0A \<or> c = CHR 0x0B
                \<or> c = CHR 0x0C \<or> c = CHR 0x0D \<or> c = CHR 0xA0)"

definition trim :: "string \<Rightarrow> string" where
  "trim s = rev (dropWhile isSpace (rev (dropWhile isSpace s)))"

definition startsWith :: "string \<Rightarrow> string \<Rightarrow> bool" where
  "startsWith s p = (take (length p) s = p)"

definition endsWith :: "string \<Rightarrow> string \<Rightarrow> bool" where
  "endsWith s p = (length p \<le> length s \<and> drop (length s - length p) s = p)"

text \<open>\<open>s.slice(2, -2)\<close>.\<close>

definition slice_2_m2 :: "string \<Rightarrow> string" where
  "slice_2_m2 s = take (length s - 2 - 2) (drop 2 s)"

text \<open>
  \<open>expr.match(_VARIABLE_REGEX)\<close> followed by \<open>v.split(".")[0]\<close>: the root of every match
  of \<open>[a-zA-Z_$][\w$]*(?:\.[\w$]+)*\<close>, from left to right. \<open>skipPath\<close> consumes the rest
  of a match after its root: word characters, and a dot that a word character follows.
\<close>

fun skipPath :: "string \<Rightarrow> string" where
  "skipPath [] = []"
| "skipPath [c] = (if isWordChar c then [] else [c])"
| "skipPath (c # d # cs) =
     (if isWordChar c then skipPath (d # cs)
      else if c = CHR ''.'' \<and> isWordChar d then skipPath (d # cs)
      else c # d # cs)"

lemma dot_not_word: "\<not> isWordChar (CHR ''.'')"
  by (simp add: isWordChar_def isLetter_def isDigit_def code_def)

lemma length_skipPath: "length (skipPath s) \<le> length s"
  by (induction s rule: skipPath.induct) (auto simp: dot_not_word)

lemma length_skipPath_dropWhile [termination_simp]:
  "length (skipPath (dropWhile P cs)) < Suc (length cs)"
  using length_skipPath [of "dropWhile P cs"] length_dropWhile_le [of P cs] by simp

fun rootVars :: "string \<Rightarrow> string list" where
  "rootVars [] = []"
| "rootVars (c # cs) =
     (if isIdentStart c
      then (c # takeWhile isWordChar cs) # rootVars (skipPath (dropWhile isWordChar cs))
      else rootVars cs)"

definition globals :: "string list" where
  "globals = [''window'', ''document'', ''console'', ''alert'']"

fun collectDeps :: "string list \<Rightarrow> string list \<Rightarrow> string list" where
  "collectDeps [] deps = deps"
| "collectDeps (rootVar # vs) deps =
     collectDeps vs
       (if rootVar \<noteq> [] \<and> rootVar \<notin> set globals \<and> rootVar \<notin> set deps
        then deps @ [rootVar] else deps)"

text \<open>The line \<open>if (expr.startsWith("{{") && expr.endsWith("}}")) expr = expr.slice(2, -2).trim()\<close>:
  the text that is evaluated.\<close>

definition stripInterpolation :: "string \<Rightarrow> string" where
  "stripInterpolation e =
     (if startsWith e ''{{'' \<and> endsWith e ''}}'' then trim (slice_2_m2 e) else e)"

text \<open>
  What compiling and calling \<open>new Function(...keys, `return ${expr};`)\<close> on the values of
  the scope, and then reading \<open>result?.__isRef\<close>, comes to: an exception anywhere on the
  way, a boxed cell (with the value its getter returns), or any other result.
\<close>

datatype outcome = Threw | Returned jsval | ReturnedRef jsval

record parsed =
  presult :: jsval
  pdeps :: "string list"
  pwarned :: "string list"

text \<open>
  \<open>_ExpressionParser.parse(expr, scope, deps)\<close>. \<open>ev scope text\<close> is the outcome of
  evaluating \<open>text\<close> in \<open>scope\<close>; \<open>pwarned\<close> lists the texts passed to \<open>console.warn\<close>.
\<close>

definition parse :: "('s \<Rightarrow> string \<Rightarrow> outcome) \<Rightarrow> jsval \<Rightarrow> 's \<Rightarrow> string list \<Rightarrow> parsed" where
  "parse ev expr scope deps =
     (case expr of
        VStr e \<Rightarrow>
          (let deps1 = collectDeps (rootVars e) deps;
               e1 = stripInterpolation e
           in case ev scope e1 of
                Returned result \<Rightarrow> \<lparr>presult = result, pdeps = deps1, pwarned = []\<rparr>
              | ReturnedRef v \<Rightarrow> \<lparr>presult = v, pdeps = deps1, pwarned = []\<rparr>
              | Threw \<Rightarrow> \<lparr>presult = VStr e1, pdeps = deps1, pwarned = [e1]\<rparr>)
      | _ \<Rightarrow> \<lparr>presult = expr, pdeps = deps, pwarned = []\<rparr>)"


text \<open>Decimal numerals.\<close>

definition digitChar :: "nat \<Rightarrow> char" where
  "digitChar d = ''0123456789'' ! d"

fun showNat :: "nat \<Rightarrow> string" where
  "showNat n = (if n < 10 then [digitChar n] else showNat (n div 10) @ [digitChar (n mod 10)])"

declare showNat.simps [simp del]

definition showInt :: "int \<Rightarrow> string" where
  "showInt i = (if i < 0 then CHR ''-'' # showNat (nat (- i)) else showNat (nat i))"

text \<open>
  The string a value converts to. Integers below \<open>10^21\<close> in size print in decimal
  notation. \<open>refString\<close> stands for the platform's conversion of everything else:
  functions, objects, and the numbers it prints in exponent notation.
\<close>

definition toStringJS :: "(jsval \<Rightarrow> string) \<Rightarrow> jsval \<Rightarrow> string" where
  "toStringJS refString v =
     (case v of
        VUndefined \<Rightarrow> ''undefined''
      | VNull \<Rightarrow> ''null''
      | VBool b \<Rightarrow> (if b then ''true'' else ''false'')
      | VNum n \<Rightarrow> (if \<bar>n\<bar> < 1000000000000000000000 then showInt n else refString v)
      | VNaN \<Rightarrow> ''NaN''
      | VStr t \<Rightarrow> t
      | _ \<Rightarrow> refString v)"


section \<open>Directive registration\<close>

datatype error = HandlerNotFunction string | TypeError | RangeError

text \<open>\<open>typeof v === "function"\<close>.\<close>

definition isFunction :: "jsval \<Rightarrow> bool" where
  "isFunction v = (case v of VFun f \<Rightarrow> True | _ \<Rightarrow> False)"

text \<open>\<open>_registerDirective\<close> on the table \<open>_directives\<close>; \<open>Inl\<close> is the thrown \<open>Error\<close>.\<close>

definition registerDirective ::
  "string \<Rightarrow> jsval \<Rightarrow> (string \<rightharpoonup> jsval) \<Rightarrow> error + (string \<rightharpoonup> jsval)" where
  "registerDirective name handler directives =
     (if \<not> isFunction handler then Inl (HandlerNotFunction name)
      else Inr (directives(name \<mapsto> handler)))"


section \<open>Processing elements\<close>

text \<open>
  A DOM node: its identity, its type, the properties scripts have put on it, its text,
  and its child nodes.
\<close>

datatype ntype = ELEMENT_NODE | TEXT_NODE | DOCUMENT_FRAGMENT_NODE | COMMENT_NODE

datatype node = Node (nid: nat) (nodeType: ntype) (expando: "(string \<times> jsval) list")
  (textContent: string) (childNodes: "node list")

definition prop_get :: "(string \<times> jsval) list \<Rightarrow> string \<Rightarrow> jsval" where
  "prop_get ps k = (case map_of ps k of Some v \<Rightarrow> v | None \<Rightarrow> VUndefined)"

definition prop_set :: "(string \<times> jsval) list \<Rightarrow> string \<Rightarrow> jsval \<Rightarrow> (string \<times> jsval) list" where
  "prop_set ps k v = (k, v) # filter (\<lambda>p. fst p \<noteq> k) ps"

text \<open>
  \<open>_INTERPOLATION_REGEX\<close> is \<open>/\{\{([^}]+?)}}/g\<close>. A match at the head of a text is
  \<open>{{\<close>, one or more characters other than \<open>}\<close>, and \<open>}}\<close>. The expression is global, so
  \<open>test\<close> searches from \<open>lastIndex\<close>, leaves \<open>lastIndex\<close> at the end of the match, and
  resets it to 0 when there is none.
\<close>

definition interp_match :: "string \<Rightarrow> nat option" where
  "interp_match s =
     (if startsWith s ''{{''
      then (let body = takeWhile (\<lambda>c. c \<noteq> CHR ''}'') (drop 2 s);
                rest = drop (length body) (drop 2 s)
            in if body \<noteq> [] \<and> startsWith rest ''}}'' then Some (length body + 4) else None)
      else None)"

fun interp_search :: "string \<Rightarrow> nat \<Rightarrow> nat option" where
  "interp_search [] pos = None"
| "interp_search (c # cs) pos =
     (case interp_match (c # cs) of
        Some n \<Rightarrow> Some (pos + n)
      | None \<Rightarrow> interp_search cs (pos + 1))"

definition regex_test :: "string \<Rightarrow> nat \<Rightarrow> bool \<times> nat" where
  "regex_test s lastIndex =
     (case interp_search (drop lastIndex s) lastIndex of
        Some e \<Rightarrow> (True, e)
      | None \<Rightarrow> (False, 0))"

text \<open>
  \<open>_ExpressionParser.parseText(text, scope, deps)\<close>: every match of the expression is
  replaced by the string form of what \<open>parse\<close> makes of its inner text, trimmed.
  \<open>skip\<close> counts the characters of a match still to be passed over. The result does not
  depend on the names \<open>parse\<close> adds to \<open>deps\<close> on the way. The text is a string, as the
  text of a text node and the value of an attribute are.
\<close>

fun parseTextFrom ::
  "('s \<Rightarrow> string \<Rightarrow> outcome) \<Rightarrow> (jsval \<Rightarrow> string) \<Rightarrow> 's \<Rightarrow> string list \<Rightarrow> nat \<Rightarrow> string
     \<Rightarrow> string" where
  "parseTextFrom ev refString scope deps skip [] = []"
| "parseTextFrom ev refString scope deps skip (c # cs) =
     (if skip > 0 then parseTextFrom ev refString scope deps (skip - 1) cs
      else
        (case interp_match (c # cs) of
           Some n \<Rightarrow>
             toStringJS refString
               (presult (parse ev (VStr (trim (take (n - 4) (drop 2 (c # cs))))) scope deps))
             @ parseTextFrom ev refString scope deps (n - 1) cs
         | None \<Rightarrow> c # parseTextFrom ev refString scope deps 0 cs))"

definition parseText ::
  "('s \<Rightarrow> string \<Rightarrow> outcome) \<Rightarrow> (jsval \<Rightarrow> string) \<Rightarrow> string \<Rightarrow> 's \<Rightarrow> string list \<Rightarrow> string" where
  "parseText ev refString text scope deps = parseTextFrom ev refString scope deps 0 text"

text \<open>
  What processing does: it creates (or fetches) the update function of an element and
  runs it, and it binds a text node. Both are recorded in \<open>events\<close>. \<open>afterUpdate\<close> is
  the \<open>lastIndex\<close> the update function of an element leaves behind. \<open>nodeContent\<close> is
  \<open>_nodeContentMap\<close>, the original text of the text nodes that have been bound.
\<close>

datatype pevent = RunUpdateFn nat | ProcessTextNode nat

record pstate =
  lastIndex :: nat
  events :: "pevent list"
  nodeContent :: "(nat \<times> string) list"

text \<open>
  \<open>_processTextNode(node, scope)\<close>: the original text is remembered the first time, the
  update sets \<open>node.textContent\<close> to the original text with its interpolations replaced,
  and \<open>String.prototype.replace\<close> with the global expression leaves \<open>lastIndex\<close> at 0.
  The event stands for the new update closure and its subscriptions.
\<close>

definition processTextNode ::
  "('s \<Rightarrow> string \<Rightarrow> outcome) \<Rightarrow> (jsval \<Rightarrow> string) \<Rightarrow> 's \<Rightarrow> node \<Rightarrow> pstate \<Rightarrow> node \<times> pstate" where
  "processTextNode ev refString scope n st =
     (let content = (case map_of (nodeContent st) (nid n) of
                       None \<Rightarrow> nodeContent st @ [(nid n, textContent n)]
                     | Some t \<Rightarrow> nodeContent st);
          original = (case map_of (nodeContent st) (nid n) of
                        None \<Rightarrow> textContent n
                      | Some t \<Rightarrow> t)
      in (Node (nid n) (nodeType n) (expando n) (parseText ev refString original scope [])
            (childNodes n),
          \<lparr>lastIndex = 0, events = events st @ [ProcessTextNode (nid n)],
            nodeContent = content\<rparr>))"

text \<open>The loop over \<open>el.childNodes\<close>: a text node whose text passes the test is bound.\<close>

fun processTexts ::
  "('s \<Rightarrow> string \<Rightarrow> outcome) \<Rightarrow> (jsval \<Rightarrow> string) \<Rightarrow> 's \<Rightarrow> node list \<Rightarrow> pstate
     \<Rightarrow> node list \<times> pstate" where
  "processTexts ev refString scope [] st = ([], st)"
| "processTexts ev refString scope (n # ns) st =
     (if nodeType n = TEXT_NODE
      then (case regex_test (textContent n) (lastIndex st) of
              (True, e) \<Rightarrow>
                (case processTextNode ev refString scope n (st\<lparr>lastIndex := e\<rparr>) of
                   (n1, st1) \<Rightarrow>
                     (case processTexts ev refString scope ns st1 of
                        (ns1, st2) \<Rightarrow> (n1 # ns1, st2)))
            | (False, e) \<Rightarrow>
                (case processTexts ev refString scope ns (st\<lparr>lastIndex := e\<rparr>) of
                   (ns1, st2) \<Rightarrow> (n # ns1, st2)))
      else (case processTexts ev refString scope ns st of
              (ns1, st2) \<Rightarrow> (n # ns1, st2)))"

text \<open>
  \<open>_processElement(el, scope)\<close> for a node \<open>el\<close>, returning the node as the call leaves it.
  The guard reads the property \<open>__processedcessed\<close>; the mark is written to
  \<open>__processed\<close>. \<open>el.children\<close> are the child nodes that are elements. The field
  \<open>textContent\<close> of a node is the text of a text node; the code reads it of no other
  node.
\<close>

text \<open>Binding text nodes changes their text only: the tree keeps its shape, which is what
  the recursion of \<open>_processElement\<close> over the children descends on.\<close>

fun nodeCount :: "node \<Rightarrow> nat" where
  "nodeCount (Node i t ex txt cs) = 1 + sum_list (map nodeCount cs)"

lemma nodeCount_processTextNode:
  "nodeCount (fst (processTextNode ev refString scope n st)) = nodeCount n"
  by (cases n) (simp add: processTextNode_def Let_def)

lemma nodeCount_processTexts:
  "sum_list (map nodeCount (fst (processTexts ev refString scope ns st)))
     = sum_list (map nodeCount ns)"
proof (induction ns arbitrary: st)
  case Nil
  then show ?case by simp
next
  case (Cons n ns)
  show ?case
    using Cons.IH nodeCount_processTextNode [of ev refString scope n]
    by (auto split: prod.splits bool.splits)
       (metis fst_conv)+
qed

lemma nodeCount_pos: "0 < nodeCount n"
  by (cases n) simp

function processElement ::
  "(nat \<Rightarrow> nat \<Rightarrow> nat) \<Rightarrow> ('s \<Rightarrow> string \<Rightarrow> outcome) \<Rightarrow> (jsval \<Rightarrow> string) \<Rightarrow> 's \<Rightarrow> node \<Rightarrow> pstate
     \<Rightarrow> node \<times> pstate"
  and processChildren ::
  "(nat \<Rightarrow> nat \<Rightarrow> nat) \<Rightarrow> ('s \<Rightarrow> string \<Rightarrow> outcome) \<Rightarrow> (jsval \<Rightarrow> string) \<Rightarrow> 's \<Rightarrow> node list
     \<Rightarrow> pstate \<Rightarrow> node list \<times> pstate"
where
  "processElement afterUpdate ev refString scope (Node i t ex txt cs) st =
     (if truthy (prop_get ex ''__processedcessed'') then (Node i t ex txt cs, st)
      else
        (let ex1 = prop_set ex ''__processed'' (VBool True);
             st1 = (if t = ELEMENT_NODE
                    then st\<lparr>lastIndex := afterUpdate i (lastIndex st),
                            events := events st @ [RunUpdateFn i]\<rparr>
                    else st)
         in case processTexts ev refString scope cs st1 of
              (cs1, st2) \<Rightarrow>
                if t = ELEMENT_NODE \<or> t = DOCUMENT_FRAGMENT_NODE
                then (case processChildren afterUpdate ev refString scope cs1 st2 of
                        (cs2, st3) \<Rightarrow> (Node i t ex1 txt cs2, st3))
                else (Node i t ex1 txt cs1, st2)))"
| "processChildren afterUpdate ev refString scope [] st = ([], st)"
| "processChildren afterUpdate ev refString scope (n # ns) st =
     (if nodeType n = ELEMENT_NODE
      then (case processElement afterUpdate ev refString scope n st of
              (n1, st1) \<Rightarrow>
                (case processChildren afterUpdate ev refString scope ns st1 of
                   (ns1, st2) \<Rightarrow> (n1 # ns1, st2)))
      else (case processChildren afterUpdate ev refString scope ns st of
              (ns1, st2) \<Rightarrow> (n # ns1, st2)))"
  by pat_completeness auto
termination
  by (relation "measure (\<lambda>x. case x of
                   Inl (afterUpdate, ev, refString, scope, n, st) \<Rightarrow> 2 * nodeCount n
                 | Inr (afterUpdate, ev, refString, scope, ns, st) \<Rightarrow>
                     2 * sum_list (map nodeCount ns) + 1)")
     (auto simp: case_prod_beta nodeCount_processTexts nodeCount_pos)

text \<open>The call itself: \<open>!el\<close> returns at once.\<close>

definition processElement_call ::
  "(nat \<Rightarrow> nat \<Rightarrow> nat) \<Rightarrow> ('s \<Rightarrow> string \<Rightarrow> outcome) \<Rightarrow> (jsval \<Rightarrow> string) \<Rightarrow> 's
     \<Rightarrow> node option \<Rightarrow> pstate \<Rightarrow> node option \<times> pstate" where
  "processElement_call afterUpdate ev refString scope el st =
     (case el of
        None \<Rightarrow> (None, st)
      | Some n \<Rightarrow>
          (case processElement afterUpdate ev refString scope n st of
             (n1, st1) \<Rightarrow> (Some n1, st1)))"


section \<open>Observable containers\<close>

subsection \<open>The object store\<close>

text \<open>
  Property keys are strings. \<open>Idx n\<close> is the key that is the decimal numeral of \<open>n\<close>,
  \<open>Key s\<close> any other string. The objects are ordinary, extensible objects with data
  properties. A property is writable and configurable unless it is listed in \<open>locked\<close>:
  those are the properties \<open>reactive\<close> defines with \<open>Object.defineProperty\<close>, which can
  be neither written nor deleted afterwards. Nothing else locks a property. An array
  has its \<open>length\<close> besides, which can be written and not deleted. \<open>intercepted\<close> says
  that \<open>optimizeArray\<close> has given the array the prototype with the intercepted methods.
  A proxy made by \<open>reactive\<close> is an object of its own whose \<open>ptarget\<close> is the raw object;
  it has no properties of its own, every operation on it goes to its handler or, where
  the handler has no trap, to the raw object. Properties inherited from a prototype and
  symbol keys are not part of the model.
\<close>

datatype okind = PlainObject | ArrayObject | DateObject | RegExpObject | MapObject | SetObject

datatype pkey = Idx nat | Key string

record obj =
  kind :: okind
  props :: "pkey \<rightharpoonup> jsval"
  locked :: "pkey list"
  alen :: nat
  intercepted :: bool
  ptarget :: "nat option"

text \<open>The \<open>_Dependency\<close> of a container carries two more properties, \<open>_notificationDisabled\<close>
  and \<open>__proxy\<close>.\<close>

record depnode = dependency +
  notificationDisabled :: bool
  proxyRef :: "nat option"

datatype amethod = Push | Pop | Shift | Unshift | Splice | Sort | Reverse

datatype logline =
    WarnUnsupported jsval
  | WarnSetMarker string
  | WarnDeleteMarker string
  | ErrorArrayMethod amethod

text \<open>
  The state the container code works on: the objects by address with the next free
  address, \<open>_depsMap\<close>, \<open>_activeFns\<close>, the batch updater and the console. \<open>notified\<close>
  lists the calls of \<open>dep.notify\<close> in order, each with the raw object whose node it is
  and the variable passed.
\<close>

record world =
  heap :: "nat \<Rightarrow> obj"
  nextAddr :: nat
  depsMap :: "nat \<rightharpoonup> depnode"
  activeFns :: "jsval list"
  updater :: batch
  console :: "logline list"
  notified :: "(nat \<times> jsval) list"

text \<open>
  Results: \<open>Inl\<close> is a thrown exception and \<open>Inr\<close> a value. \<open>None\<close> says that the model gives
  no answer: the bound on the nesting depth of \<open>reactive\<close> is used up, or the platform
  converts a value in a way the model does not compute.
\<close>

type_synonym 'a res = "(error + 'a) option"

definition ok :: "'a \<Rightarrow> 'a res" where
  "ok v = Some (Inr v)"

definition throw :: "error \<Rightarrow> 'a res" where
  "throw e = Some (Inl e)"

definition andThen :: "'a res \<times> world \<Rightarrow> ('a \<Rightarrow> world \<Rightarrow> 'b res \<times> world) \<Rightarrow> 'b res \<times> world" where
  "andThen m f =
     (case m of
        (Some (Inr v), w) \<Rightarrow> f v w
      | (Some (Inl e), w) \<Rightarrow> (Some (Inl e), w)
      | (None, w) \<Rightarrow> (None, w))"

definition key_string :: "pkey \<Rightarrow> string" where
  "key_string k = (case k of Idx n \<Rightarrow> showNat n | Key s \<Rightarrow> s)"

text \<open>\<open>/^\d+$/.test(prop)\<close>.\<close>

definition all_digits :: "pkey \<Rightarrow> bool" where
  "all_digits k = (case k of Idx n \<Rightarrow> True | Key s \<Rightarrow> s \<noteq> [] \<and> (\<forall>c \<in> set s. isDigit c))"

definition isObject :: "jsval \<Rightarrow> bool" where
  "isObject v = (case v of VObj a \<Rightarrow> True | _ \<Rightarrow> False)"

definition put :: "nat \<Rightarrow> obj \<Rightarrow> world \<Rightarrow> world" where
  "put a x w = w\<lparr>heap := (heap w)(a := x)\<rparr>"

definition set_own :: "nat \<Rightarrow> pkey \<Rightarrow> jsval \<Rightarrow> world \<Rightarrow> world" where
  "set_own a k v w = put a ((heap w a)\<lparr>props := (props (heap w a))(k \<mapsto> v)\<rparr>) w"

text \<open>\<open>Object.defineProperty(o, k, { value: v, enumerable: false, configurable: false })\<close>
  on an object that has no locked property \<open>k\<close> yet.\<close>

definition define_locked :: "nat \<Rightarrow> pkey \<Rightarrow> jsval \<Rightarrow> world \<Rightarrow> world" where
  "define_locked a k v w =
     put a ((heap w a)\<lparr>props := (props (heap w a))(k \<mapsto> v),
                        locked := set_add k (locked (heap w a))\<rparr>) w"

text \<open>\<open>Reflect.get\<close>, \<open>Reflect.has\<close> and \<open>Reflect.deleteProperty\<close> on a raw object.\<close>

definition reflect_get :: "world \<Rightarrow> nat \<Rightarrow> pkey \<Rightarrow> jsval" where
  "reflect_get w r k =
     (if kind (heap w r) = ArrayObject \<and> k = Key ''length'' then VNum (int (alen (heap w r)))
      else (case props (heap w r) k of Some v \<Rightarrow> v | None \<Rightarrow> VUndefined))"

definition reflect_has :: "world \<Rightarrow> nat \<Rightarrow> pkey \<Rightarrow> bool" where
  "reflect_has w r k =
     ((kind (heap w r) = ArrayObject \<and> k = Key ''length'') \<or> props (heap w r) k \<noteq> None)"

definition reflect_delete :: "nat \<Rightarrow> pkey \<Rightarrow> world \<Rightarrow> bool \<times> world" where
  "reflect_delete r k w =
     (if k \<in> set (locked (heap w r)) then (False, w)
      else if kind (heap w r) = ArrayObject \<and> k = Key ''length'' then (False, w)
      else (True, put r ((heap w r)\<lparr>props := (props (heap w r))(k := None)\<rparr>) w))"

text \<open>
  What a value written to the \<open>length\<close> of an array converts to: a valid length, or a
  number that is no valid length, for which the write throws a \<open>RangeError\<close>. Of the
  strings, the blank ones and the decimal numerals are computed; the other strings
  (the platform reads signs, fractions, exponents and other radixes too), functions and
  objects are conversions the model does not compute.
\<close>

datatype lengthConv = ValidLength nat | InvalidLength | Unmodelled

fun digitsValue :: "string \<Rightarrow> nat \<Rightarrow> nat" where
  "digitsValue [] acc = acc"
| "digitsValue (c # cs) acc = digitsValue cs (10 * acc + (code c - code (CHR ''0'')))"

definition toLength :: "jsval \<Rightarrow> lengthConv" where
  "toLength v =
     (case v of
        VNum n \<Rightarrow> if 0 \<le> n \<and> n < 4294967296 then ValidLength (nat n) else InvalidLength
      | VNaN \<Rightarrow> InvalidLength
      | VUndefined \<Rightarrow> InvalidLength
      | VNull \<Rightarrow> ValidLength 0
      | VBool b \<Rightarrow> ValidLength (if b then 1 else 0)
      | VStr s \<Rightarrow>
          (if trim s = [] then ValidLength 0
           else if (\<forall>c \<in> set (trim s). isDigit c)
           then (if int (digitsValue (trim s) 0) < 4294967296
                 then ValidLength (digitsValue (trim s) 0) else InvalidLength)
           else Unmodelled)
      | _ \<Rightarrow> Unmodelled)"

text \<open>
  \<open>Reflect.set(targetObj, prop, value, receiver)\<close> with the proxy as receiver: the
  property is defined on the raw object. A locked property is not written and the
  answer is \<open>false\<close>. Writing the \<open>length\<close> of an array removes the elements from the new
  length on, or throws a \<open>RangeError\<close>; writing an element at or beyond the length
  extends the length.
\<close>

definition reflect_set :: "nat \<Rightarrow> pkey \<Rightarrow> jsval \<Rightarrow> world \<Rightarrow> bool res \<times> world" where
  "reflect_set r k v w =
     (let x = heap w r in
      if k \<in> set (locked x) then (ok False, w)
      else if kind x = ArrayObject \<and> k = Key ''length''
      then (case toLength v of
              Unmodelled \<Rightarrow> (None, w)
            | InvalidLength \<Rightarrow> (throw RangeError, w)
            | ValidLength n \<Rightarrow>
                (ok True,
                 put r (x\<lparr>props := (\<lambda>j. case j of
                                         Idx i \<Rightarrow> if i < n then props x j else None
                                       | Key s \<Rightarrow> props x j),
                          alen := n\<rparr>) w))
      else (case k of
              Idx i \<Rightarrow>
                if kind x = ArrayObject \<and> int i < 4294967295 \<and> alen x \<le> i
                then (ok True, put r (x\<lparr>props := (props x)(k \<mapsto> v), alen := i + 1\<rparr>) w)
                else (ok True, put r (x\<lparr>props := (props x)(k \<mapsto> v)\<rparr>) w)
            | Key s \<Rightarrow> (ok True, put r (x\<lparr>props := (props x)(k \<mapsto> v)\<rparr>) w)))"

text \<open>
  Reading one of the marker properties off a value. On a proxy the get trap answers
  with \<open>Reflect.get\<close> on the raw object.
\<close>

definition get_marker :: "world \<Rightarrow> jsval \<Rightarrow> string \<Rightarrow> jsval" where
  "get_marker w v name =
     (case v of
        VObj a \<Rightarrow>
          (case ptarget (heap w a) of
             Some r \<Rightarrow> reflect_get w r (Key name)
           | None \<Rightarrow> reflect_get w a (Key name))
      | _ \<Rightarrow> VUndefined)"

definition kind_of :: "world \<Rightarrow> nat \<Rightarrow> okind" where
  "kind_of w a = (case ptarget (heap w a) of Some r \<Rightarrow> kind (heap w r) | None \<Rightarrow> kind (heap w a))"

subsection \<open>The dependency node of a container\<close>

definition new_depnode :: depnode where
  "new_depnode = \<lparr>subscribers = [], varSubs = Map.empty, notificationDisabled = False,
                  proxyRef = None\<rparr>"

definition dep_subscribe :: "nat \<Rightarrow> jsval \<Rightarrow> jsval \<Rightarrow> world \<Rightarrow> world" where
  "dep_subscribe r fn variable w =
     w\<lparr>depsMap := (depsMap w)(r := map_option (subscribe fn variable) (depsMap w r))\<rparr>"

definition dep_notify :: "nat \<Rightarrow> jsval \<Rightarrow> world \<Rightarrow> world" where
  "dep_notify r variable w =
     (case depsMap w r of
        None \<Rightarrow> w
      | Some d \<Rightarrow> w\<lparr>updater := notify variable d (updater w),
                     notified := notified w @ [(r, variable)]\<rparr>)"

definition disabled :: "world \<Rightarrow> nat \<Rightarrow> bool" where
  "disabled w r = (case depsMap w r of None \<Rightarrow> False | Some d \<Rightarrow> notificationDisabled d)"

definition set_disabled :: "nat \<Rightarrow> bool \<Rightarrow> world \<Rightarrow> world" where
  "set_disabled r b w =
     w\<lparr>depsMap := (depsMap w)(r := map_option (\<lambda>d. d\<lparr>notificationDisabled := b\<rparr>) (depsMap w r))\<rparr>"

subsection \<open>\<open>window.reactive\<close>\<close>

text \<open>The first test of \<open>reactive\<close>: what is not wrapped.\<close>

definition unsupported :: "world \<Rightarrow> jsval \<Rightarrow> bool" where
  "unsupported w v =
     (case v of
        VObj a \<Rightarrow> kind_of w a = DateObject \<or> kind_of w a = RegExpObject
                  \<or> kind_of w a = MapObject \<or> kind_of w a = SetObject
      | _ \<Rightarrow> True)"

text \<open>
  \<open>rawTarget.forEach((item, index) => ... && (rawTarget[index] = reactive(item)))\<close> over
  the indices given; \<open>wrap\<close> is the call of \<open>reactive\<close>. An index that holds nothing is
  skipped.
\<close>

fun wrapItems ::
  "(jsval \<Rightarrow> world \<Rightarrow> jsval res \<times> world) \<Rightarrow> nat \<Rightarrow> nat list \<Rightarrow> world \<Rightarrow> unit res \<times> world" where
  "wrapItems wrap r [] w = (ok (), w)"
| "wrapItems wrap r (index # rest) w =
     (case props (heap w r) (Idx index) of
        None \<Rightarrow> wrapItems wrap r rest w
      | Some item \<Rightarrow>
          if isObject item \<and> \<not> truthy (get_marker w item ''__isReactive'')
          then (case wrap item w of
                  (Some (Inr v), w1) \<Rightarrow> wrapItems wrap r rest (set_own r (Idx index) v w1)
                | (Some (Inl e), w1) \<Rightarrow> (throw e, w1)
                | (None, w1) \<Rightarrow> (None, w1))
          else wrapItems wrap r rest w)"

text \<open>
  The raw object gets its dependency node and the markers \<open>__isReactive\<close> and \<open>__raw\<close>:
  \<open>_depsMap.set(rawTarget, dep)\<close> and \<open>Object.defineProperties(rawTarget, ...)\<close>.
\<close>

definition markRaw :: "nat \<Rightarrow> world \<Rightarrow> world" where
  "markRaw a w =
     define_locked a (Key ''__raw'') (VObj a)
       (define_locked a (Key ''__isReactive'') (VBool True)
          (w\<lparr>depsMap := (depsMap w)(a \<mapsto> new_depnode)\<rparr>))"

text \<open>
  The end of \<open>reactive\<close>: \<open>new Proxy(rawTarget, ...)\<close>, the marker \<open>__isReactiveProxy\<close> and
  \<open>dep.__proxy = proxy\<close>. \<open>Object.defineProperty(proxy, "__isReactiveProxy", ...)\<close> goes
  through the proxy, whose handler has no \<open>defineProperty\<close> trap, so the property is
  defined on the raw object.
\<close>

definition makeProxy :: "nat \<Rightarrow> world \<Rightarrow> jsval res \<times> world" where
  "makeProxy a w =
     (let p = nextAddr w;
          w1 = (put p \<lparr>kind = PlainObject, props = Map.empty, locked = [], alen = 0,
                       intercepted = False, ptarget = Some a\<rparr> w)
                 \<lparr>nextAddr := p + 1\<rparr>;
          w2 = define_locked a (Key ''__isReactiveProxy'') (VBool True) w1;
          w3 = w2\<lparr>depsMap := (depsMap w2)
                 (a := map_option (\<lambda>d. d\<lparr>proxyRef := Some p\<rparr>) (depsMap w2 a))\<rparr>
      in (ok (VObj p), w3))"

text \<open>
  \<open>reactive(target)\<close>. The first argument bounds how deep the calls of \<open>reactive\<close> on the
  elements of arrays may nest.
\<close>

fun reactive :: "nat \<Rightarrow> jsval \<Rightarrow> world \<Rightarrow> jsval res \<times> world" where
  "reactive 0 target w = (None, w)"
| "reactive (Suc n) target w =
     (if unsupported w target
      then (ok target, w\<lparr>console := console w @ [WarnUnsupported target]\<rparr>)
      else if truthy (get_marker w target ''__isReactiveProxy'') then (ok target, w)
      else
        (case target of
           VObj a \<Rightarrow>
             if truthy (get_marker w target ''__isReactive'')
             then (case depsMap w a of
                     None \<Rightarrow> (throw TypeError, w)
                   | Some d \<Rightarrow>
                       (ok (case proxyRef d of Some p \<Rightarrow> VObj p | None \<Rightarrow> target), w))
             else
               (let w1 = markRaw a w
                in andThen
                     (if kind (heap w1 a) = ArrayObject
                      then wrapItems (\<lambda>item w'. reactive n item w') a [0 ..< alen (heap w1 a)]
                             (put a ((heap w1 a)\<lparr>intercepted := True\<rparr>) w1)
                      else (ok (), w1))
                     (\<lambda>u w2. makeProxy a w2))
         | _ \<Rightarrow> (ok target, w)))"


subsection \<open>The traps of the proxy\<close>

text \<open>
  The handler of the proxy that \<open>reactive\<close> makes for the raw object \<open>r\<close>. \<open>dep\<close> is the
  node of \<open>r\<close>. The first argument of \<open>get_trap\<close> and \<open>set_trap\<close> is the bound handed to
  the calls of \<open>reactive\<close>.
\<close>

definition isMarker :: "pkey \<Rightarrow> bool" where
  "isMarker k = (k = Key ''__isReactive'' \<or> k = Key ''__raw'' \<or> k = Key ''__isReactiveProxy'')"

text \<open>\<open>Array.isArray(targetObj) && /^\d+$/.test(prop) ? `index:${prop}` : prop\<close>.\<close>

definition dep_key :: "world \<Rightarrow> nat \<Rightarrow> pkey \<Rightarrow> jsval" where
  "dep_key w r k =
     (if kind (heap w r) = ArrayObject \<and> all_digits k
      then VStr (''index:'' @ key_string k) else VStr (key_string k))"

definition get_trap :: "nat \<Rightarrow> nat \<Rightarrow> pkey \<Rightarrow> world \<Rightarrow> jsval res \<times> world" where
  "get_trap n r k w =
     (if k = Key ''__proto__'' \<or> isMarker k then (ok (reflect_get w r k), w)
      else
        (let w1 = (if length (activeFns w) > 0
                   then dep_subscribe r (last (activeFns w)) (dep_key w r k) w else w);
             v = reflect_get w1 r k
         in if isObject v \<and> \<not> truthy (get_marker w1 v ''__isReactive'')
            then reactive n v w1 else (ok v, w1)))"

text \<open>\<open>for (let i = value; i < oldLength; i++) dep.notify(`index:${i}`)\<close>.\<close>

fun notify_indices :: "nat \<Rightarrow> int list \<Rightarrow> world \<Rightarrow> world" where
  "notify_indices r [] w = w"
| "notify_indices r (i # is) w =
     notify_indices r is (dep_notify r (VStr (''index:'' @ showInt i)) w)"

definition set_trap :: "nat \<Rightarrow> nat \<Rightarrow> pkey \<Rightarrow> jsval \<Rightarrow> world \<Rightarrow> bool res \<times> world" where
  "set_trap n r k v w =
     (if isMarker k
      then (ok True, w\<lparr>console := console w @ [WarnSetMarker (key_string k)]\<rparr>)
      else
        (let oldValue = reflect_get w r k
         in if strict_eq oldValue v \<or> (isNaN oldValue \<and> isNaN v) then (ok True, w)
            else
              (let oldLength = int (alen (heap w r));
                   lengthWrite = (kind (heap w r) = ArrayObject \<and> k = Key ''length'')
               in if lengthWrite \<and> v = VNum oldLength then (ok True, w)
                  else
                    (let w1 = (case v of
                                 VNum l \<Rightarrow>
                                   if lengthWrite \<and> l < oldLength
                                   then notify_indices r [l ..  oldLength - 1] w else w
                               | _ \<Rightarrow> w)
                     in andThen (if isObject v then reactive n v w1 else (ok v, w1))
                          (\<lambda>reactiveValue w2.
                             andThen (reflect_set r k reactiveValue w2)
                               (\<lambda>setResult w3.
                                  (ok setResult,
                                   if \<not> disabled w3 r then dep_notify r (dep_key w3 r k) w3
                                   else w3)))))))"

definition deleteProperty_trap :: "nat \<Rightarrow> pkey \<Rightarrow> world \<Rightarrow> bool \<times> world" where
  "deleteProperty_trap r k w =
     (if isMarker k
      then (False, w\<lparr>console := console w @ [WarnDeleteMarker (key_string k)]\<rparr>)
      else
        (let hadProp = reflect_has w r k
         in case reflect_delete r k w of
              (deleteResult, w1) \<Rightarrow>
                (deleteResult,
                 if hadProp \<and> deleteResult \<and> \<not> disabled w1 r
                 then dep_notify r (dep_key w1 r k) w1 else w1)))"

subsection \<open>The array methods\<close>

text \<open>
  The platform's operations on the object at an address: on a proxy they call the trap,
  and a trap of \<open>set\<close> or \<open>deleteProperty\<close> that reports failure makes the caller throw
  a \<open>TypeError\<close>. So does a set trap that reports success for a locked property of the
  raw object whose value is not the value written.
\<close>

definition obj_Get :: "nat \<Rightarrow> nat \<Rightarrow> pkey \<Rightarrow> world \<Rightarrow> jsval res \<times> world" where
  "obj_Get n a k w =
     (case ptarget (heap w a) of
        Some r \<Rightarrow> get_trap n r k w
      | None \<Rightarrow> (ok (reflect_get w a k), w))"

definition obj_Set :: "nat \<Rightarrow> nat \<Rightarrow> pkey \<Rightarrow> jsval \<Rightarrow> world \<Rightarrow> unit res \<times> world" where
  "obj_Set n a k v w =
     andThen (case ptarget (heap w a) of
                Some r \<Rightarrow>
                  andThen (set_trap n r k v w)
                    (\<lambda>success w1.
                       if success \<and> k \<in> set (locked (heap w1 r)) \<and> props (heap w1 r) k \<noteq> Some v
                       then (throw TypeError, w1) else (ok success, w1))
              | None \<Rightarrow> reflect_set a k v w)
       (\<lambda>success w1. if success then (ok (), w1) else (throw TypeError, w1))"

definition obj_Delete :: "nat \<Rightarrow> pkey \<Rightarrow> world \<Rightarrow> unit res \<times> world" where
  "obj_Delete a k w =
     (case (case ptarget (heap w a) of
              Some r \<Rightarrow> deleteProperty_trap r k w
            | None \<Rightarrow> reflect_delete a k w) of
        (success, w1) \<Rightarrow> if success then (ok (), w1) else (throw TypeError, w1))"

definition lengthOf :: "jsval \<Rightarrow> nat" where
  "lengthOf v = (case v of VNum l \<Rightarrow> nat l | _ \<Rightarrow> 0)"

text \<open>
  \<open>Array.prototype.pop\<close> and \<open>Array.prototype.push\<close> as the language defines them, on the
  object \<open>this\<close>: \<open>pop\<close> reads the length, reads and deletes the last element and writes
  the length; \<open>push\<close> reads the length, writes each item after the last element and
  writes the length.
\<close>

definition array_pop :: "nat \<Rightarrow> nat \<Rightarrow> jsval list \<Rightarrow> world \<Rightarrow> jsval res \<times> world" where
  "array_pop n this args w =
     andThen (obj_Get n this (Key ''length'') w)
       (\<lambda>lenv w1.
          if lengthOf lenv = 0
          then andThen (obj_Set n this (Key ''length'') (VNum 0) w1) (\<lambda>u w2. (ok VUndefined, w2))
          else
            (let newLen = lengthOf lenv - 1
             in andThen (obj_Get n this (Idx newLen) w1)
                  (\<lambda>element w2.
                     andThen (obj_Delete this (Idx newLen) w2)
                       (\<lambda>u w3.
                          andThen (obj_Set n this (Key ''length'') (VNum (int newLen)) w3)
                            (\<lambda>u w4. (ok element, w4))))))"

fun push_items :: "nat \<Rightarrow> nat \<Rightarrow> nat \<Rightarrow> jsval list \<Rightarrow> world \<Rightarrow> nat res \<times> world" where
  "push_items n this len [] w = (ok len, w)"
| "push_items n this len (item # items) w =
     andThen (obj_Set n this (Idx len) item w) (\<lambda>u w1. push_items n this (len + 1) items w1)"

definition array_push :: "nat \<Rightarrow> nat \<Rightarrow> jsval list \<Rightarrow> world \<Rightarrow> jsval res \<times> world" where
  "array_push n this args w =
     andThen (obj_Get n this (Key ''length'') w)
       (\<lambda>lenv w1.
          andThen (push_items n this (lengthOf lenv) args w1)
            (\<lambda>len w2.
               andThen (obj_Set n this (Key ''length'') (VNum (int len)) w2)
                 (\<lambda>u w3. (ok (VNum (int len)), w3))))"

text \<open>\<open>newItems.forEach(item => (typeof item === "object" && item !== null &&
  !item.__isReactive) && reactive(item))\<close>.\<close>

fun wrapNew :: "nat \<Rightarrow> jsval list \<Rightarrow> world \<Rightarrow> unit res \<times> world" where
  "wrapNew n [] w = (ok (), w)"
| "wrapNew n (item # items) w =
     (if isObject item \<and> \<not> truthy (get_marker w item ''__isReactive'')
      then andThen (reactive n item w) (\<lambda>v w1. wrapNew n items w1)
      else wrapNew n items w)"

text \<open>
  The method that \<open>optimizeArray\<close> installs under the name \<open>method\<close> for the array \<open>r\<close>,
  called on \<open>this\<close>. \<open>original\<close> is \<open>Array.prototype[method]\<close>; its call stands before the
  \<open>try\<close> block, so what it throws leaves the method with the notifications still
  disabled.
\<close>

definition arrayMethod ::
  "(nat \<Rightarrow> jsval list \<Rightarrow> world \<Rightarrow> jsval res \<times> world) \<Rightarrow> nat \<Rightarrow> nat \<Rightarrow> amethod \<Rightarrow> nat \<Rightarrow> jsval list
     \<Rightarrow> world \<Rightarrow> jsval res \<times> world" where
  "arrayMethod original n r method this args w =
     (let isNotificationDisabled = disabled w r;
          w1 = set_disabled r True w
      in andThen (original this args w1)
           (\<lambda>originalResult w2.
              case (if method = Splice \<or> method = Push \<or> method = Unshift
                    then wrapNew n (if method = Splice then drop 2 args else args) w2
                    else (ok (), w2)) of
                (Some (Inr u), w3) \<Rightarrow>
                  (let w4 = set_disabled r isNotificationDisabled w3
                   in (ok originalResult,
                       if \<not> disabled w4 r then dep_notify r (VStr ''array:mutate'') w4 else w4))
              | (Some (Inl e), w3) \<Rightarrow>
                  (ok originalResult,
                   set_disabled r isNotificationDisabled
                     (w3\<lparr>console := console w3 @ [ErrorArrayMethod method]\<rparr>))
              | (None, w3) \<Rightarrow> (None, w3)))"


subsection \<open>Wrapped objects\<close>

text \<open>
  A raw object that \<open>reactive\<close> has wrapped carries the three markers:
  \<open>__isReactive\<close> and \<open>__isReactiveProxy\<close> are \<open>true\<close> and \<open>__raw\<close> is the object itself.
\<close>

definition wrapped :: "world \<Rightarrow> nat \<Rightarrow> bool" where
  "wrapped w r =
     (r < nextAddr w
      \<and> props (heap w r) (Key ''__isReactive'') = Some (VBool True)
      \<and> props (heap w r) (Key ''__raw'') = Some (VObj r)
      \<and> props (heap w r) (Key ''__isReactiveProxy'') = Some (VBool True))"


section \<open>The count-based repetition directive\<close>

text \<open>
  \<open>parseInt(text, 10)\<close>: leading white space is skipped, a sign is read, and the longest
  run of decimal digits that follows is the number; \<open>None\<close> is \<open>NaN\<close>, the result when
  there is no digit.
\<close>

definition parseInt10 :: "string \<Rightarrow> int option" where
  "parseInt10 s =
     (let s1 = dropWhile isSpace s;
          s2 = (if startsWith s1 ''-'' \<or> startsWith s1 ''+'' then drop 1 s1 else s1);
          ds = takeWhile isDigit s2
      in if ds = [] then None
         else Some ((if startsWith s1 ''-'' then - 1 else 1) * int (digitsValue ds 0)))"

text \<open>\<open>Math.max(0, parseInt(parsedCount, 10) || 0)\<close>.\<close>

definition forCount :: "(jsval \<Rightarrow> string) \<Rightarrow> jsval \<Rightarrow> int" where
  "forCount refString parsedCount =
     max 0 (case parseInt10 (toStringJS refString parsedCount) of None \<Rightarrow> 0 | Some c \<Rightarrow> c)"

text \<open>
  A scope is its bindings in order. \<open>bind_var\<close> is the assignment \<open>scope[name] = value\<close>,
  and on a copy the \<open>{ ...scope, [name]: value }\<close> of a new item scope.
\<close>

definition bind_var :: "string \<Rightarrow> jsval \<Rightarrow> (string \<times> jsval) list \<Rightarrow> (string \<times> jsval) list" where
  "bind_var name v bs =
     (if name \<in> fst ` set bs then map (\<lambda>b. if fst b = name then (name, v) else b) bs
      else bs @ [(name, v)])"

text \<open>
  A cache entry: the DOM nodes of one repetition, by identity, and its item scope, with
  the identity of the scope object. The state of one \<open>r-for\<close> element: \<open>nodeCache\<close>,
  \<open>prevKeys\<close>, the child nodes of the element, the next unused identity, and a record of
  which keys were built anew and which were reused.
\<close>

record forEntry =
  nodes :: "nat list"
  itemScope :: "(string \<times> jsval) list"
  scopeId :: nat

datatype forEvent = Created int | Reused int

record forState =
  nodeCache :: "(int \<times> forEntry) list"
  prevKeys :: "int list"
  children :: "nat list"
  nextId :: nat
  forLog :: "forEvent list"

definition forInit :: forState where
  "forInit = \<lparr>nodeCache = [], prevKeys = [], children = [], nextId = 0, forLog = []\<rparr>"

definition cache_set :: "int \<Rightarrow> forEntry \<Rightarrow> (int \<times> forEntry) list \<Rightarrow> (int \<times> forEntry) list" where
  "cache_set key e c =
     (if key \<in> fst ` set c then map (\<lambda>b. if fst b = key then (key, e) else b) c
      else c @ [(key, e)])"

text \<open>
  The body of \<open>currKeys.forEach\<close> in \<open>update\<close>, accumulating the fragment. A cached key
  has the index written to its item scope and its nodes moved to the fragment. A new
  key gets \<open>tmplCount\<close> new nodes, the top-level nodes the template parses to, and a
  new item scope.
\<close>

fun forKeys ::
  "string \<Rightarrow> nat \<Rightarrow> (string \<times> jsval) list \<Rightarrow> int list \<Rightarrow> forState \<Rightarrow> nat list
     \<Rightarrow> forState \<times> nat list" where
  "forKeys indexKey tmplCount scope [] st fragment = (st, fragment)"
| "forKeys indexKey tmplCount scope (key # keys) st fragment =
     (case map_of (nodeCache st) key of
        Some cacheEntry \<Rightarrow>
          forKeys indexKey tmplCount scope keys
            (st\<lparr>nodeCache := cache_set key
                    (cacheEntry\<lparr>itemScope := bind_var indexKey (VNum key) (itemScope cacheEntry)\<rparr>)
                    (nodeCache st),
                forLog := forLog st @ [Reused key]\<rparr>)
            (fragment @ nodes cacheEntry)
      | None \<Rightarrow>
          (let nodeArray = [nextId st ..< nextId st + tmplCount];
               entry = \<lparr>nodes = nodeArray,
                        itemScope = bind_var indexKey (VNum key) scope,
                        scopeId = nextId st + tmplCount\<rparr>
           in forKeys indexKey tmplCount scope keys
                (st\<lparr>nodeCache := cache_set key entry (nodeCache st),
                    nextId := nextId st + tmplCount + 1,
                    forLog := forLog st @ [Created key]\<rparr>)
                (fragment @ nodeArray)))"

text \<open>
  \<open>update\<close> of the \<open>r-for\<close> handler. Neither \<open>parse\<close> nor \<open>parseInt\<close> throws on the values
  of this model, so the \<open>catch\<close> branch that sets \<open>count = 0\<close> is never entered.
\<close>

definition forUpdate ::
  "((string \<times> jsval) list \<Rightarrow> string \<Rightarrow> outcome) \<Rightarrow> (jsval \<Rightarrow> string) \<Rightarrow> string
     \<Rightarrow> (string \<times> jsval) list \<Rightarrow> string list \<Rightarrow> string \<Rightarrow> nat \<Rightarrow> forState \<Rightarrow> forState" where
  "forUpdate ev refString expr scope deps indexKey tmplCount st =
     (let parsedCount = presult (parse ev (VStr (trim expr)) scope deps);
          count = forCount refString parsedCount;
          currKeys = [1 .. count]
      in case forKeys indexKey tmplCount scope currKeys st [] of
           (st1, fragment) \<Rightarrow>
             st1\<lparr>nodeCache := filter (\<lambda>b. \<not> (fst b \<in> set (prevKeys st) \<and> fst b \<notin> set currKeys))
                                 (nodeCache st1),
                 prevKeys := currKeys,
                 children := fragment\<rparr>)"


section \<open>Concrete inputs\<close>

text \<open>An update function 0 whose run notifies a store that update function 1 reads; every
  other update function notifies nothing. None throws.\<close>

definition chained :: "nat \<Rightarrow> behaviour" where
  "chained f = (if f = 0 then \<lparr>adds = [VFun 1], throws = False\<rparr>
                else \<lparr>adds = [], throws = False\<rparr>)"

text \<open>A scope in which every evaluation raises, as it does for a text that is no
  expression or that names an identifier the scope does not bind.\<close>

definition failing :: "'s \<Rightarrow> string \<Rightarrow> outcome" where
  "failing scope text = Threw"

text \<open>
  Update functions that leave \<open>lastIndex\<close> as they find it. The element
  \<open><div>{{n}}<span>a</span></div>\<close> before anybody has processed it, and the same element
  as processing leaves it in a scope that does not bind \<open>n\<close>: the \<open>div\<close> and the \<open>span\<close>
  marked, the text node showing \<open>n\<close>.
\<close>

definition keepIndex :: "nat \<Rightarrow> nat \<Rightarrow> nat" where
  "keepIndex i l = l"

definition boundDiv :: node where
  "boundDiv =
     Node 0 ELEMENT_NODE [] []
       [Node 1 TEXT_NODE [] ''{{n}}'' [],
        Node 2 ELEMENT_NODE [] [] [Node 3 TEXT_NODE [] ''a'' []]]"

definition processedDiv :: node where
  "processedDiv =
     Node 0 ELEMENT_NODE [(''__processed'', VBool True)] []
       [Node 1 TEXT_NODE [] ''n'' [],
        Node 2 ELEMENT_NODE [(''__processed'', VBool True)] [] [Node 3 TEXT_NODE [] ''a'' []]]"

definition pstate_init :: pstate where
  "pstate_init = \<lparr>lastIndex = 0, events = [], nodeContent = []\<rparr>"

text \<open>A cell holding \<open>NaN\<close> that update function 7 has read.\<close>

definition nanCell :: cell where
  "nanCell = snd (ref_get [VFun 7] (ref VNaN))"


text \<open>A platform that prints every object as \<open>[object Object]\<close>.\<close>

definition objectString :: "jsval \<Rightarrow> string" where
  "objectString v = ''[object Object]''"

text \<open>No directive registered.\<close>

definition noDirectives :: "string \<rightharpoonup> jsval" where
  "noDirectives = Map.empty"

text \<open>
  A store whose one object, at address 0, is the plain object \<open>{}\<close>, and a store whose
  one object is the array \<open>[10, 20]\<close>; nothing is wrapped, subscribed or queued.
\<close>

definition emptyObj :: obj where
  "emptyObj = \<lparr>kind = PlainObject, props = Map.empty, locked = [], alen = 0,
               intercepted = False, ptarget = None\<rparr>"

definition plainWorld :: world where
  "plainWorld = \<lparr>heap = (\<lambda>a. emptyObj), nextAddr = 1, depsMap = Map.empty, activeFns = [],
                 updater = batch_init, console = [], notified = []\<rparr>"

definition arrayWorld :: world where
  "arrayWorld =
     put 0 \<lparr>kind = ArrayObject, props = [Idx 0 \<mapsto> VNum 10, Idx 1 \<mapsto> VNum 20], locked = [],
            alen = 2, intercepted = False, ptarget = None\<rparr> plainWorld"

text \<open>The store after \<open>const p = reactive(x)\<close> for the plain object \<open>x\<close>.\<close>

definition wrappedWorld :: world where
  "wrappedWorld = snd (reactive 1 (VObj 0) plainWorld)"

text \<open>
  The array \<open>[10, 20]\<close> wrapped as \<open>list\<close> (the proxy is at address 1). Update function 1
  has read \<open>list[1]\<close> while it was on \<open>_activeFns\<close>; update function 2 is subscribed to
  the variable \<open>array:mutate\<close> of the array's node.
\<close>

definition watched :: world where
  "watched =
     dep_subscribe 0 (VFun 2) (VStr ''array:mutate'')
       ((snd (get_trap 1 0 (Idx 1)
                ((snd (reactive 1 (VObj 0) arrayWorld))\<lparr>activeFns := [VFun 1]\<rparr>)))
          \<lparr>activeFns := []\<rparr>)"


section \<open>Properties of dependency nodes\<close>

lemma set_set_add: "set (set_add x xs) = insert x (set xs)"
  by (auto simp: set_add_def)

lemma distinct_set_add: "distinct xs \<Longrightarrow> distinct (set_add x xs)"
  by (simp add: set_add_def)

lemma subscribe_inv:
  assumes "dep_inv d"
  shows "dep_inv (subscribe fn variable d)"
proof (cases fn)
  case (VFun f)
  from assms have sub: "\<And>k fs. varSubs d k = Some fs \<Longrightarrow> set fs \<subseteq> set (subscribers d)"
    unfolding dep_inv_def by blast
  show ?thesis
    unfolding dep_inv_def
  proof (intro allI impI)
    fix k fs
    assume h: "varSubs (subscribe fn variable d) k = Some fs"
    have subs: "set (subscribers (subscribe fn variable d)) = insert f (set (subscribers d))"
      using VFun by (simp add: subscribe_def Let_def set_set_add)
    show "set fs \<subseteq> set (subscribers (subscribe fn variable d))"
    proof (cases "truthy variable \<and> k = variable")
      case True
      then have "fs = set_add f (case varSubs d variable of None \<Rightarrow> [] | Some ys \<Rightarrow> ys)"
        using h VFun by (auto simp: subscribe_def Let_def split: option.splits)
      then have "set fs \<subseteq> insert f (set (subscribers d))"
        using sub by (auto simp: set_set_add split: option.splits)
      then show ?thesis using subs by simp
    next
      case False
      then have "varSubs d k = Some fs"
        using h VFun by (auto simp: subscribe_def Let_def split: if_splits)
      then show ?thesis using sub subs by blast
    qed
  qed
qed (simp_all add: subscribe_def assms)

lemma dep_step_inv: "dep_inv (fst s) \<Longrightarrow> dep_inv (fst (dep_step x s))"
  by (cases x; cases s) (simp_all add: subscribe_inv)

lemma dep_run_inv: "dep_inv (fst s) \<Longrightarrow> dep_inv (fst (dep_run xs s))"
  by (induction xs arbitrary: s) (simp_all add: dep_step_inv)

text \<open>
  C5. After any sequence of subscribe and notify calls on a fresh dependency node, every
  per-variable subscriber set is contained in the global subscriber set.
\<close>

theorem dependency_superset_invariant:
  "dep_inv (fst (dep_run ops (new_Dependency, b)))"
  by (rule dep_run_inv) (simp add: dep_inv_def new_Dependency_def)

theorem dependency_superset_invariant_witness:
  "varSubs (fst (dep_run [Subscribe (VFun 1) (VStr ''a''), Notify VNull, Subscribe (VFun 2) VNull]
                  (new_Dependency, batch_init))) (VStr ''a'') = Some [1]
   \<and> set [1::nat] \<subseteq> set (subscribers (fst (dep_run
        [Subscribe (VFun 1) (VStr ''a''), Notify VNull, Subscribe (VFun 2) VNull]
        (new_Dependency, batch_init))))"
proof -
  let ?d = "fst (dep_run [Subscribe (VFun 1) (VStr ''a''), Notify VNull, Subscribe (VFun 2) VNull]
                  (new_Dependency, batch_init))"
  have inv: "dep_inv ?d"
    by (rule dependency_superset_invariant)
  have key: "varSubs ?d (VStr ''a'') = Some [1]"
    by (simp add: subscribe_def new_Dependency_def set_add_def Let_def)
  from inv key have "set [1::nat] \<subseteq> set (subscribers ?d)"
    unfolding dep_inv_def by blast
  with key show ?thesis by simp
qed


section \<open>Properties of boxed cells\<close>

text \<open>
  \<open>add\<close> and \<open>notify\<close> only queue: they run no update function. Setting a cell to the
  value it holds (under \<open>===\<close>) changes nothing; setting it to another value stores the
  value and leaves every subscriber in the queue, once.
\<close>

lemma executed_add: "executed (add fn b) = executed b"
  by (cases fn) (simp_all add: add_def scheduleUpdate_def Let_def)

lemma executed_add_all: "executed (add_all fns b) = executed b"
  by (induction fns arbitrary: b) (simp_all add: executed_add)

lemma queue_add: "queue (add (VFun f) b) = set_add f (queue b)"
  by (simp add: add_def scheduleUpdate_def Let_def)

lemma queue_add_all_VFun: "set (queue (add_all (map VFun fs) b)) = set (queue b) \<union> set fs"
  by (induction fs arbitrary: b) (auto simp: queue_add set_set_add)

lemma distinct_queue_add_all:
  "distinct (queue b) \<Longrightarrow> distinct (queue (add_all (map VFun fs) b))"
  by (induction fs arbitrary: b) (simp_all add: queue_add distinct_set_add)

lemma ref_set_same: "strict_eq (cvalue c) v \<Longrightarrow> ref_set v (c, b) = (c, b)"
  by (simp add: ref_set_def)

lemma ref_set_different:
  assumes "\<not> strict_eq (cvalue c) v" and "distinct (queue b)"
  shows "cvalue (fst (ref_set v (c, b))) = v"
    and "set (queue (snd (ref_set v (c, b)))) = set (queue b) \<union> set (subscribers (cdep c))"
    and "distinct (queue (snd (ref_set v (c, b))))"
    and "executed (snd (ref_set v (c, b))) = executed b"
  using assms
  by (auto simp: ref_set_def notify_def notify_targets_def Let_def queue_add_all_VFun
      distinct_queue_add_all executed_add_all)

text \<open>
  C1. The setter compares with \<open>!==\<close> alone. On a cell that holds \<open>NaN\<close>, setting
  \<open>NaN\<close> again passes the comparison: the value is stored and the subscriber is put in
  the queue, with a flush scheduled.
\<close>

theorem ref_set_NaN_on_NaN_notifies:
  "cvalue nanCell = VNaN
   \<and> ref_set VNaN (nanCell, batch_init)
       = (nanCell, batch_init\<lparr>queue := [7], isUpdating := True, frames := 1\<rparr>)"
  by (simp add: nanCell_def ref_set_def ref_get_def ref_def strict_eq_def notify_def
      notify_targets_def subscribe_def new_Dependency_def set_add_def add_def
      scheduleUpdate_def batch_init_def Let_def)


section \<open>Properties of the batch updater\<close>

text \<open>A flush runs the update functions that were in the queue when it began, in order,
  and no other: what is queued during the flush is not run by it.\<close>

lemma executed_call_fn: "executed (call_fn body f b) = executed b @ [f]"
  by (simp add: call_fn_def Let_def executed_add_all)

lemma executed_forEach_call: "executed (forEach_call body fs b) = executed b @ fs"
  by (induction fs arbitrary: b) (simp_all add: executed_call_fn)

lemma executeQueue_runs_snapshot:
  "executed (executeQueue body b) = executed b @ queue b"
  by (simp add: executeQueue_def Let_def executed_forEach_call)

text \<open>
  C2. Update function 0 is queued and the frame fires. While it runs it queues update
  function 1; \<open>_isUpdating\<close> is still set, so no flush is scheduled, and the flush ends
  by clearing the flag. The state reached has update function 1 in the queue, no frame
  callback registered and the flag cleared: nothing will run it until some later
  \<open>add\<close>.
\<close>

theorem flush_strands_evaluator_queued_during_flush:
  "reachable chained (frame chained (add (VFun 0) batch_init))
   \<and> frame chained (add (VFun 0) batch_init)
       = \<lparr>queue = [1], isUpdating = False, frames = 0, executed = [0], failures = []\<rparr>"
proof
  have r: "reachable chained (add (VFun 0) batch_init)"
    by (rule r_add) (rule r_init)
  have "0 < frames (add (VFun 0) batch_init)"
    by (simp add: add_def scheduleUpdate_def batch_init_def set_add_def Let_def)
  with r show "reachable chained (frame chained (add (VFun 0) batch_init))"
    by (rule r_frame)
next
  show "frame chained (add (VFun 0) batch_init)
       = \<lparr>queue = [1], isUpdating = False, frames = 0, executed = [0], failures = []\<rparr>"
    by (simp add: frame_def executeQueue_def call_fn_def chained_def add_def
        scheduleUpdate_def batch_init_def set_add_def Let_def)
qed


section \<open>Properties of element processing\<close>

text \<open>
  C3. Processing \<open><div>{{n}}<span>a</span></div>\<close> marks the \<open>div\<close> and the \<open>span\<close>
  \<open>__processed\<close>, runs their update functions and binds the text node, whose text
  becomes \<open>n\<close>. Processing the marked element again is no no-op: the guard reads
  \<open>__processedcessed\<close>, which nothing sets, so the update functions of the \<open>div\<close> and of
  the \<open>span\<close> are run again. The text node is not bound again, because its text no
  longer holds an interpolation.
\<close>

theorem processElement_again_reprocesses:
  "processElement keepIndex failing objectString () boundDiv pstate_init
     = (processedDiv,
        \<lparr>lastIndex = 0, events = [RunUpdateFn 0, ProcessTextNode 1, RunUpdateFn 2],
          nodeContent = [(1, ''{{n}}'')]\<rparr>)
   \<and> prop_get (expando processedDiv) ''__processed'' = VBool True
   \<and> processElement keepIndex failing objectString () processedDiv
        \<lparr>lastIndex = 0, events = [RunUpdateFn 0, ProcessTextNode 1, RunUpdateFn 2],
          nodeContent = [(1, ''{{n}}'')]\<rparr>
     = (processedDiv,
        \<lparr>lastIndex = 0,
          events = [RunUpdateFn 0, ProcessTextNode 1, RunUpdateFn 2, RunUpdateFn 0, RunUpdateFn 2],
          nodeContent = [(1, ''{{n}}'')]\<rparr>)"
  by code_simp


section \<open>Properties of the expression parser\<close>

lemma parse_Threw:
  assumes "ev scope (stripInterpolation e) = Threw"
  shows "parse ev (VStr e) scope deps
         = \<lparr>presult = VStr (stripInterpolation e),
            pdeps = collectDeps (rootVars e) deps,
            pwarned = [stripInterpolation e]\<rparr>"
  using assms by (simp add: parse_def Let_def)

lemma stripInterpolation_plain:
  "\<not> (startsWith e ''{{'' \<and> endsWith e ''}}'') \<Longrightarrow> stripInterpolation e = e"
  unfolding stripInterpolation_def by (rule if_not_P)

text \<open>
  C8, as the claim states it, fails: for the text \<open>{{ foo }}\<close> a failed evaluation
  returns \<open>foo\<close>, not the text it was given.
\<close>

theorem parse_failure_not_verbatim:
  "presult (parse failing (VStr ''{{ foo }}'') () []) = VStr ''foo''
   \<and> presult (parse failing (VStr ''{{ foo }}'') () []) \<noteq> VStr ''{{ foo }}''"
  by (simp add: parse_def failing_def stripInterpolation_def startsWith_def endsWith_def
      slice_2_m2_def trim_def isSpace_def Let_def)

text \<open>
  C8, amended. When the evaluation fails, \<open>parse\<close> returns the text it tried to
  evaluate and warns once, naming that text: it is the text given, unless that starts
  with \<open>{{\<close> and ends with \<open>}}\<close>, and then it is what stands between them, trimmed.
  \<open>parse\<close> is a total function whose result is a value: no exception leaves it.
\<close>

theorem parse_failure_returns_evaluated_text:
  assumes "ev scope (stripInterpolation e) = Threw"
  shows "presult (parse ev (VStr e) scope deps) = VStr (stripInterpolation e)
         \<and> pwarned (parse ev (VStr e) scope deps) = [stripInterpolation e]
         \<and> (\<not> (startsWith e ''{{'' \<and> endsWith e ''}}'')
              \<longrightarrow> presult (parse ev (VStr e) scope deps) = VStr e)
         \<and> (startsWith e ''{{'' \<and> endsWith e ''}}''
              \<longrightarrow> presult (parse ev (VStr e) scope deps) = VStr (trim (slice_2_m2 e)))"
  using parse_Threw [of ev scope e deps] assms
  by (auto simp: stripInterpolation_def)

theorem parse_failure_returns_evaluated_text_witness:
  "failing () (stripInterpolation ''count + 1'') = Threw
   \<and> \<not> (startsWith ''count + 1'' ''{{'' \<and> endsWith ''count + 1'' ''}}'')
   \<and> presult (parse failing (VStr ''count + 1'') () []) = VStr ''count + 1''
   \<and> pwarned (parse failing (VStr ''count + 1'') () []) = [''count + 1'']"
proof -
  have h: "failing () (stripInterpolation ''count + 1'') = Threw"
    by (simp add: failing_def)
  have n: "\<not> (startsWith ''count + 1'' ''{{'' \<and> endsWith ''count + 1'' ''}}'')"
    by (simp add: startsWith_def)
  have s: "stripInterpolation ''count + 1'' = ''count + 1''"
    using n by (rule stripInterpolation_plain)
  from parse_failure_returns_evaluated_text [of failing "()" "''count + 1''" "[]", OF h]
  have "presult (parse failing (VStr ''count + 1'') () []) = VStr (stripInterpolation ''count + 1'')"
    and "pwarned (parse failing (VStr ''count + 1'') () []) = [stripInterpolation ''count + 1'']"
    by blast+
  with h n s show ?thesis by simp
qed


section \<open>Properties of observable containers\<close>

lemma wrapped_andThen:
  assumes "wrapped (snd m) r" and "\<And>v w. wrapped w r \<Longrightarrow> wrapped (snd (f v w)) r"
  shows "wrapped (snd (andThen m f)) r"
  using assms by (cases m) (auto simp: andThen_def split: option.splits sum.splits)

lemma wrapped_set_own_idx: "wrapped w r \<Longrightarrow> wrapped (set_own a (Idx i) v w) r"
  by (auto simp: wrapped_def set_own_def put_def)

lemma wrapped_markRaw: "wrapped w r \<Longrightarrow> wrapped (markRaw a w) r"
  by (auto simp: wrapped_def markRaw_def define_locked_def put_def)

lemma wrapped_makeProxy: "wrapped w r \<Longrightarrow> wrapped (snd (makeProxy a w)) r"
  by (auto simp: wrapped_def makeProxy_def define_locked_def put_def Let_def)

lemma wrapped_define_marker:
  "wrapped w r \<Longrightarrow> wrapped (define_locked a (Key ''__isReactive'') (VBool True) w) r"
  "wrapped w r \<Longrightarrow> wrapped (define_locked a (Key ''__raw'') (VObj a) w) r"
  "wrapped w r \<Longrightarrow> wrapped (define_locked a (Key ''__isReactiveProxy'') (VBool True) w) r"
  by (auto simp: wrapped_def define_locked_def put_def)

lemma wrapped_depsMap: "wrapped (w\<lparr>depsMap := m\<rparr>) r = wrapped w r"
  by (simp add: wrapped_def)

lemma wrapped_console: "wrapped (w\<lparr>console := c\<rparr>) r = wrapped w r"
  by (simp add: wrapped_def)

lemma wrapped_intercepted:
  "wrapped w r \<Longrightarrow> wrapped (put a ((heap w a)\<lparr>intercepted := b\<rparr>) w) r"
  by (auto simp: wrapped_def put_def)

lemma wrapped_alloc:
  "wrapped w r \<Longrightarrow> wrapped ((put (nextAddr w) x w)\<lparr>nextAddr := nextAddr w + 1\<rparr>) r"
  by (auto simp: wrapped_def put_def)

lemma wrapItems_wrapped:
  assumes "\<And>item w. wrapped w r \<Longrightarrow> wrapped (snd (wrap item w)) r"
  shows "wrapped w r \<Longrightarrow> wrapped (snd (wrapItems wrap a idxs w)) r"
proof (induction idxs arbitrary: w)
  case Nil
  then show ?case by simp
next
  case (Cons index rest)
  show ?case
  proof (cases "props (heap w a) (Idx index)")
    case None
    then show ?thesis using Cons by simp
  next
    case (Some item)
    show ?thesis
    proof (cases "isObject item \<and> \<not> truthy (get_marker w item ''__isReactive'')")
      case False
      then show ?thesis using Some Cons by auto
    next
      case True
      obtain res w1 where e: "wrap item w = (res, w1)" by (cases "wrap item w")
      have w1: "wrapped w1 r" using assms [OF Cons.prems, of item] e by simp
      show ?thesis
      proof (cases res)
        case None
        then show ?thesis using True Some e w1 by simp
      next
        case (Some x)
        then show ?thesis
          using True \<open>props (heap w a) (Idx index) = Some item\<close> e w1
            Cons.IH [OF wrapped_set_own_idx [OF w1]]
          by (cases x) (simp_all add: throw_def)
      qed
    qed
  qed
qed

lemma reactive_wrapped: "wrapped w r \<Longrightarrow> wrapped (snd (reactive n v w)) r"
proof (induction n arbitrary: v w)
  case 0
  then show ?case by simp
next
  case (Suc n)
  have items: "\<And>a idxs w'. wrapped w' r \<Longrightarrow>
      wrapped (snd (wrapItems (\<lambda>item w'. reactive n item w') a idxs w')) r"
    by (rule wrapItems_wrapped) (rule Suc.IH)
  show ?case
  proof (cases "unsupported w v \<or> truthy (get_marker w v ''__isReactiveProxy'')")
    case True
    then show ?thesis using Suc.prems by (auto simp: wrapped_console)
  next
    case False
    then obtain a where v: "v = VObj a"
      by (cases v) (auto simp: unsupported_def)
    show ?thesis
    proof (cases "truthy (get_marker w v ''__isReactive'')")
      case True
      then show ?thesis using False v Suc.prems
        by (auto split: option.splits)
    next
      case nm: False
      let ?w1 = "markRaw a w"
      let ?M = "if kind (heap ?w1 a) = ArrayObject
                then wrapItems (\<lambda>item w'. reactive n item w') a [0 ..< alen (heap ?w1 a)]
                       (put a ((heap ?w1 a)\<lparr>intercepted := True\<rparr>) ?w1)
                else (ok (), ?w1)"
      have w1: "wrapped ?w1 r"
        using Suc.prems by (rule wrapped_markRaw)
      have M: "wrapped (snd ?M) r"
        using w1 items wrapped_intercepted [OF w1] by simp
      have eq: "reactive (Suc n) v w = andThen ?M (\<lambda>u w2. makeProxy a w2)"
        using False nm v by (simp add: Let_def del: upt_Suc)
      show ?thesis
        unfolding eq using M by (rule wrapped_andThen) (rule wrapped_makeProxy)
    qed
  qed
qed

lemma wrapped_dep_notify: "wrapped (dep_notify a variable w) r = wrapped w r"
  by (simp add: wrapped_def dep_notify_def split: option.splits)

lemma wrapped_notify_indices: "wrapped (notify_indices a is w) r = wrapped w r"
  by (induction "is" arbitrary: w) (simp_all add: wrapped_dep_notify)

lemma wrapped_dep_subscribe: "wrapped (dep_subscribe a fn variable w) r = wrapped w r"
  by (simp add: wrapped_def dep_subscribe_def)

lemma wrapped_reflect_set:
  "wrapped w r \<Longrightarrow> \<not> isMarker k \<Longrightarrow> wrapped (snd (reflect_set a k v w)) r"
  by (cases k)
     (auto simp: wrapped_def reflect_set_def put_def isMarker_def Let_def ok_def throw_def
           split: lengthConv.splits)

lemma wrapped_reflect_delete:
  "wrapped w r \<Longrightarrow> \<not> isMarker k \<Longrightarrow> wrapped (snd (reflect_delete a k w)) r"
  by (auto simp: wrapped_def reflect_delete_def put_def isMarker_def)

lemma set_trap_wrapped: "wrapped w r \<Longrightarrow> wrapped (snd (set_trap n a k v w)) r"
proof (cases "isMarker k")
  case True
  then show "wrapped w r \<Longrightarrow> ?thesis" by (simp add: set_trap_def wrapped_console)
next
  case False
  assume w: "wrapped w r"
  let ?w1 = "case v of
               VNum l \<Rightarrow>
                 if (kind (heap w a) = ArrayObject \<and> k = Key ''length'') \<and> l < int (alen (heap w a))
                 then notify_indices a [l ..  int (alen (heap w a)) - 1] w else w
             | _ \<Rightarrow> w"
  have w1: "wrapped ?w1 r"
    using w by (cases v) (simp_all add: wrapped_notify_indices)
  have wrapv: "wrapped (snd (if isObject v then reactive n v ?w1 else (ok v, ?w1))) r"
    using w1 by (simp add: reactive_wrapped)
  have rest: "wrapped (snd (andThen (if isObject v then reactive n v ?w1 else (ok v, ?w1))
          (\<lambda>reactiveValue w2.
             andThen (reflect_set a k reactiveValue w2)
               (\<lambda>setResult w3.
                  (ok setResult,
                   if \<not> disabled w3 a then dep_notify a (dep_key w3 a k) w3 else w3))))) r"
    using wrapv
  proof (rule wrapped_andThen)
    fix x w2 assume "wrapped w2 r"
    then have "wrapped (snd (reflect_set a k x w2)) r"
      using False by (rule wrapped_reflect_set)
    then show "wrapped (snd (andThen (reflect_set a k x w2)
               (\<lambda>setResult w3.
                  (ok setResult,
                   if \<not> disabled w3 a then dep_notify a (dep_key w3 a k) w3 else w3)))) r"
      by (rule wrapped_andThen) (simp add: wrapped_dep_notify)
  qed
  show ?thesis
    using False w rest by (simp add: set_trap_def Let_def)
qed

lemma deleteProperty_trap_wrapped: "wrapped w r \<Longrightarrow> wrapped (snd (deleteProperty_trap a k w)) r"
proof (cases "isMarker k")
  case True
  then show "wrapped w r \<Longrightarrow> ?thesis" by (simp add: deleteProperty_trap_def wrapped_console)
next
  case False
  assume "wrapped w r"
  then have "wrapped (snd (reflect_delete a k w)) r"
    using False by (rule wrapped_reflect_delete)
  then show ?thesis
    using False
    by (cases "reflect_delete a k w") (simp add: deleteProperty_trap_def Let_def wrapped_dep_notify)
qed

lemma get_trap_wrapped: "wrapped w r \<Longrightarrow> wrapped (snd (get_trap n a k w)) r"
  by (simp add: get_trap_def Let_def wrapped_dep_subscribe reactive_wrapped)

lemmas store_defs = put_def set_own_def define_locked_def set_add_def reflect_get_def get_marker_def kind_of_def
  unsupported_def isObject_def new_depnode_def ok_def throw_def andThen_def markRaw_def
  makeProxy_def

text \<open>
  C4. On the plain object at address 0, the first \<open>reactive\<close> returns a new proxy, at
  address 1. It has defined \<open>__isReactiveProxy\<close> through the proxy, that is on the raw
  object, so a second \<open>reactive\<close> on the raw object finds \<open>target.__isReactiveProxy\<close> set
  and returns the raw object itself, not the proxy; the store is left as it was.
  \<open>reactive\<close> on the proxy returns the proxy.
\<close>

theorem reactive_twice_returns_raw_object:
  "fst (reactive (Suc n) (VObj 0) plainWorld) = ok (VObj 1)
   \<and> fst (reactive (Suc m) (VObj 0) (snd (reactive (Suc n) (VObj 0) plainWorld))) = ok (VObj 0)
   \<and> snd (reactive (Suc m) (VObj 0) (snd (reactive (Suc n) (VObj 0) plainWorld)))
       = snd (reactive (Suc n) (VObj 0) plainWorld)
   \<and> fst (reactive (Suc m) (VObj 1) (snd (reactive (Suc n) (VObj 0) plainWorld))) = ok (VObj 1)"
  by (simp add: plainWorld_def emptyObj_def store_defs Let_def)

text \<open>
  C6. \<open>list.pop()\<close> on the watched array \<open>[10, 20]\<close> returns 20. While the notifications
  are disabled, \<open>pop\<close> writes \<open>length = 1\<close> through the set trap, whose branch for a
  shrinking length calls \<open>dep.notify("index:1")\<close> without looking at the switch; the
  method then notifies \<open>array:mutate\<close>. Two notifications are emitted, and update
  function 1, subscribed to the element only, is queued.
\<close>

theorem pop_notifies_removed_index_too:
  "fst (arrayMethod (array_pop 1) 1 0 Pop 1 [] watched) = ok (VNum 20)
   \<and> notified (snd (arrayMethod (array_pop 1) 1 0 Pop 1 [] watched))
       = [(0, VStr ''index:1''), (0, VStr ''array:mutate'')]
   \<and> queue (updater (snd (arrayMethod (array_pop 1) 1 0 Pop 1 [] watched))) = [1, 2]"
  by code_simp

text \<open>Appending five items with one \<open>push\<close> emits the one notification
  \<open>array:mutate\<close>.\<close>

lemma push_five_notifies_once:
  "notified (snd (arrayMethod (array_push 1) 1 0 Push 1
                    [VNum 1, VNum 2, VNum 3, VNum 4, VNum 5] watched))
     = [(0, VStr ''array:mutate'')]"
  by code_simp

text \<open>
  C9, as the claim states it, fails: registering a handler that is no function throws.
\<close>

theorem registerDirective_throws:
  "registerDirective ''r-x'' VNull noDirectives = Inl (HandlerNotFunction ''r-x'')"
  by (simp add: registerDirective_def isFunction_def)

text \<open>
  C9, amended. Registering a handler that is not a function throws an \<open>Error\<close> naming the
  directive and registers nothing. Wrapping an unsupported value (anything that is not
  an object, and a date, a regular expression, a map or a set) logs a warning and
  returns the value unchanged; it throws nothing.
\<close>

theorem registration_throws_and_wrapping_degrades:
  "(\<not> isFunction handler \<longrightarrow>
      registerDirective name handler directives = Inl (HandlerNotFunction name))
   \<and> (unsupported w target \<longrightarrow>
        reactive (Suc n) target w
          = (ok target, w\<lparr>console := console w @ [WarnUnsupported target]\<rparr>))"
  by (simp add: registerDirective_def)

theorem registration_throws_and_wrapping_degrades_witness:
  "\<not> isFunction (VStr ''handler'')
   \<and> registerDirective ''r-x'' (VStr ''handler'') noDirectives = Inl (HandlerNotFunction ''r-x'')
   \<and> unsupported plainWorld (VNum 5)
   \<and> reactive (Suc 0) (VNum 5) plainWorld
       = (ok (VNum 5), plainWorld\<lparr>console := console plainWorld @ [WarnUnsupported (VNum 5)]\<rparr>)"
proof -
  have f: "\<not> isFunction (VStr ''handler'')"
    by (simp add: isFunction_def)
  have u: "unsupported plainWorld (VNum 5)"
    by (simp add: unsupported_def)
  from registration_throws_and_wrapping_degrades
         [of "VStr ''handler''" "''r-x''" noDirectives plainWorld "VNum 5" 0] f u
  show ?thesis by blast
qed

text \<open>
  C10. For a marker property the set trap writes nothing: it logs a warning and reports
  success, and the delete trap logs a warning and reports failure; the store, the
  dependency nodes, the queue and the list of notifications are as before. And whatever
  the property and the value, the get, set and delete traps leave the three markers of
  every wrapped object as they are.
\<close>

theorem marker_properties_protected:
  "(isMarker k \<longrightarrow>
      set_trap n r k v w = (ok True, w\<lparr>console := console w @ [WarnSetMarker (key_string k)]\<rparr>)
      \<and> deleteProperty_trap r k w
          = (False, w\<lparr>console := console w @ [WarnDeleteMarker (key_string k)]\<rparr>)
      \<and> heap (snd (set_trap n r k v w)) = heap w
      \<and> notified (snd (set_trap n r k v w)) = notified w
      \<and> updater (snd (set_trap n r k v w)) = updater w
      \<and> heap (snd (deleteProperty_trap r k w)) = heap w
      \<and> notified (snd (deleteProperty_trap r k w)) = notified w
      \<and> updater (snd (deleteProperty_trap r k w)) = updater w)
   \<and> (wrapped w a \<longrightarrow>
        wrapped (snd (set_trap n r k v w)) a
        \<and> wrapped (snd (deleteProperty_trap r k w)) a
        \<and> wrapped (snd (get_trap n r k w)) a)"
proof (intro conjI impI)
  assume m: "isMarker k"
  show s: "set_trap n r k v w
             = (ok True, w\<lparr>console := console w @ [WarnSetMarker (key_string k)]\<rparr>)"
    using m by (simp add: set_trap_def)
  show d: "deleteProperty_trap r k w
             = (False, w\<lparr>console := console w @ [WarnDeleteMarker (key_string k)]\<rparr>)"
    using m by (simp add: deleteProperty_trap_def)
  show "heap (snd (set_trap n r k v w)) = heap w"
    and "notified (snd (set_trap n r k v w)) = notified w"
    and "updater (snd (set_trap n r k v w)) = updater w"
    by (simp_all add: s)
  show "heap (snd (deleteProperty_trap r k w)) = heap w"
    and "notified (snd (deleteProperty_trap r k w)) = notified w"
    and "updater (snd (deleteProperty_trap r k w)) = updater w"
    by (simp_all add: d)
next
  assume "wrapped w a"
  then show "wrapped (snd (set_trap n r k v w)) a"
    by (rule set_trap_wrapped)
next
  assume "wrapped w a"
  then show "wrapped (snd (deleteProperty_trap r k w)) a"
    by (rule deleteProperty_trap_wrapped)
next
  assume "wrapped w a"
  then show "wrapped (snd (get_trap n r k w)) a"
    by (rule get_trap_wrapped)
qed

theorem marker_properties_protected_witness:
  "isMarker (Key ''__raw'')
   \<and> set_trap 1 0 (Key ''__raw'') VNull wrappedWorld
       = (ok True, wrappedWorld\<lparr>console := console wrappedWorld @ [WarnSetMarker ''__raw'']\<rparr>)
   \<and> deleteProperty_trap 0 (Key ''__raw'') wrappedWorld
       = (False, wrappedWorld\<lparr>console := console wrappedWorld @ [WarnDeleteMarker ''__raw'']\<rparr>)
   \<and> wrapped wrappedWorld 0
   \<and> wrapped (snd (set_trap 1 0 (Key ''name'') (VStr ''a'') wrappedWorld)) 0
   \<and> wrapped (snd (deleteProperty_trap 0 (Key ''name'') wrappedWorld)) 0"
proof -
  have m: "isMarker (Key ''__raw'')"
    by (simp add: isMarker_def)
  have wr: "wrapped wrappedWorld 0"
    by (simp add: wrapped_def wrappedWorld_def plainWorld_def emptyObj_def store_defs Let_def)
  from marker_properties_protected [of "Key ''__raw''" 1 0 VNull wrappedWorld 0] m
  have "set_trap 1 0 (Key ''__raw'') VNull wrappedWorld
          = (ok True, wrappedWorld\<lparr>console := console wrappedWorld @ [WarnSetMarker ''__raw'']\<rparr>)"
    and "deleteProperty_trap 0 (Key ''__raw'') wrappedWorld
          = (False, wrappedWorld\<lparr>console := console wrappedWorld @ [WarnDeleteMarker ''__raw'']\<rparr>)"
    by (simp_all add: key_string_def)
  moreover
  from marker_properties_protected [of "Key ''name''" 1 0 "VStr ''a''" wrappedWorld 0] wr
  have "wrapped (snd (set_trap 1 0 (Key ''name'') (VStr ''a'') wrappedWorld)) 0"
    and "wrapped (snd (deleteProperty_trap 0 (Key ''name'') wrappedWorld)) 0"
    by blast+
  ultimately show ?thesis using m wr by blast
qed


section \<open>Properties of the count-based repetition directive\<close>

text \<open>
  When the cache holds exactly the previous keys, an update with count \<open>N\<close> leaves
  exactly the keys \<open>1..N\<close>. An entry that was cached for a key up to \<open>N\<close> is kept with
  its nodes and its scope object, the index written to its item scope; the children of
  the element are the nodes of the entries in key order.
\<close>

lemma map_of_cache_set:
  "map_of (cache_set k e c) k' = (if k' = k then Some e else map_of c k')"
proof (cases "k \<in> fst ` set c")
  case True
  have "map_of (map (\<lambda>b. if fst b = k then (k, e) else b) c) k'
          = (if k' = k then (if k \<in> fst ` set c then Some e else None) else map_of c k')"
    by (induction c) (auto, force)
  then show ?thesis using True by (simp add: cache_set_def)
next
  case False
  then have "map_of c k = None"
    by (simp add: map_of_eq_None_iff)
  then show ?thesis using False
    by (auto simp: cache_set_def map_add_def split: option.splits)
qed

lemma keys_cache_set: "fst ` set (cache_set k e c) = insert k (fst ` set c)"
proof (cases "k \<in> fst ` set c")
  case True
  have "fst ` set (map (\<lambda>b. if fst b = k then (k, e) else b) c) = fst ` set c"
    by (induction c) auto
  then show ?thesis using True by (auto simp: cache_set_def)
next
  case False
  then show ?thesis by (simp add: cache_set_def)
qed

lemma forKeys_other:
  "k \<notin> set keys \<Longrightarrow>
   map_of (nodeCache (fst (forKeys ik tc sc keys st frag))) k = map_of (nodeCache st) k"
  by (induction keys arbitrary: st frag)
     (auto simp: Let_def map_of_cache_set split: option.splits)

lemma forKeys_keys:
  "fst ` set (nodeCache (fst (forKeys ik tc sc keys st frag)))
     = fst ` set (nodeCache st) \<union> set keys"
  by (induction keys arbitrary: st frag)
     (auto simp: Let_def keys_cache_set split: option.splits)

lemma forKeys_reused:
  "distinct keys \<Longrightarrow> k \<in> set keys \<Longrightarrow> map_of (nodeCache st) k = Some e \<Longrightarrow>
   map_of (nodeCache (fst (forKeys ik tc sc keys st frag))) k
     = Some (e\<lparr>itemScope := bind_var ik (VNum k) (itemScope e)\<rparr>)"
proof (induction keys arbitrary: st frag)
  case Nil
  then show ?case by simp
next
  case (Cons key keys)
  show ?case
  proof (cases "k = key")
    case True
    then have "k \<notin> set keys" using Cons.prems by simp
    then show ?thesis using True Cons.prems
      by (simp add: forKeys_other map_of_cache_set)
  next
    case False
    then show ?thesis using Cons
      by (auto simp: Let_def map_of_cache_set split: option.splits)
  qed
qed

lemma forKeys_fragment:
  "distinct keys \<Longrightarrow>
   snd (forKeys ik tc sc keys st frag)
     = frag @ concat (map (\<lambda>k. nodes (the (map_of (nodeCache (fst (forKeys ik tc sc keys st frag))) k)))
                       keys)"
proof (induction keys arbitrary: st frag)
  case Nil
  then show ?case by simp
next
  case (Cons key keys)
  then have nk: "key \<notin> set keys" and d: "distinct keys" by simp_all
  show ?case
  proof (cases "map_of (nodeCache st) key")
    case None
    then show ?thesis
      using Cons.IH [OF d] nk
      by (simp add: Let_def forKeys_other map_of_cache_set)
  next
    case (Some e)
    then show ?thesis
      using Cons.IH [OF d] nk
      by (simp add: Let_def forKeys_other map_of_cache_set)
  qed
qed

lemma map_of_filter_fst:
  "map_of (filter (\<lambda>b. Q (fst b)) c) k = (if Q k then map_of c k else None)"
  by (induction c) auto

lemma keys_filter_fst:
  "fst ` set (filter (\<lambda>b. Q (fst b)) c) = {k \<in> fst ` set c. Q k}"
  by (induction c) auto

lemma forUpdate_key_space:
  fixes ev :: "(string \<times> jsval) list \<Rightarrow> string \<Rightarrow> outcome" and refString expr scope deps
    and indexKey tmplCount and st :: forState
  assumes inv: "fst ` set (nodeCache st) = set (prevKeys st)"
  defines "N \<equiv> forCount refString (presult (parse ev (VStr (trim expr)) scope deps))"
  defines "st' \<equiv> forUpdate ev refString expr scope deps indexKey tmplCount st"
  shows "fst ` set (nodeCache st') = {1 .. N}"
    and "prevKeys st' = [1 .. N]"
    and "\<And>k e. 1 \<le> k \<Longrightarrow> k \<le> N \<Longrightarrow> map_of (nodeCache st) k = Some e \<Longrightarrow>
           map_of (nodeCache st') k = Some (e\<lparr>itemScope := bind_var indexKey (VNum k) (itemScope e)\<rparr>)"
    and "children st' = concat (map (\<lambda>k. nodes (the (map_of (nodeCache st') k))) [1 .. N])"
proof -
  let ?r = "forKeys indexKey tmplCount scope [1 .. N] st []"
  let ?Q = "\<lambda>k. \<not> (k \<in> set (prevKeys st) \<and> k \<notin> set [1 .. N])"
  have st': "st' = (fst ?r)\<lparr>nodeCache := filter (\<lambda>b. ?Q (fst b)) (nodeCache (fst ?r)),
                              prevKeys := [1 .. N], children := snd ?r\<rparr>"
    unfolding st'_def N_def forUpdate_def Let_def by (simp add: case_prod_beta)
  have nc: "nodeCache st' = filter (\<lambda>b. ?Q (fst b)) (nodeCache (fst ?r))"
    by (subst st') simp
  have keys1: "fst ` set (nodeCache (fst ?r)) = set (prevKeys st) \<union> {1 .. N}"
    using inv by (simp add: forKeys_keys)
  have "fst ` set (nodeCache st') = {k \<in> fst ` set (nodeCache (fst ?r)). ?Q k}"
    unfolding nc by (rule keys_filter_fst)
  then show "fst ` set (nodeCache st') = {1 .. N}"
    unfolding keys1 by auto
  show "prevKeys st' = [1 .. N]"
    by (subst st') simp
  have look: "map_of (nodeCache st') k = map_of (nodeCache (fst ?r)) k" if "1 \<le> k" "k \<le> N" for k
  proof -
    have q: "?Q k" using that by simp
    have "map_of (filter (\<lambda>b. ?Q (fst b)) (nodeCache (fst ?r))) k
            = (if ?Q k then map_of (nodeCache (fst ?r)) k else None)"
      by (rule map_of_filter_fst)
    also have "\<dots> = map_of (nodeCache (fst ?r)) k"
      using q by (rule if_P)
    finally show ?thesis unfolding nc .
  qed
  show "\<And>k e. 1 \<le> k \<Longrightarrow> k \<le> N \<Longrightarrow> map_of (nodeCache st) k = Some e \<Longrightarrow>
           map_of (nodeCache st') k = Some (e\<lparr>itemScope := bind_var indexKey (VNum k) (itemScope e)\<rparr>)"
    by (simp add: look forKeys_reused)
  have "children st' = snd ?r"
    by (subst st') simp
  also have "\<dots> = concat (map (\<lambda>k. nodes (the (map_of (nodeCache (fst ?r)) k))) [1 .. N])"
    using forKeys_fragment [of "[1 .. N]" indexKey tmplCount scope st "[]"] by simp
  also have "\<dots> = concat (map (\<lambda>k. nodes (the (map_of (nodeCache st') k))) [1 .. N])"
    by (rule arg_cong [where f = concat], rule map_cong) (simp_all add: look)
  finally show "children st' = concat (map (\<lambda>k. nodes (the (map_of (nodeCache st') k))) [1 .. N])" .
qed

text \<open>
  C7. For \<open>r-for="3 +"\<close> the evaluation fails, \<open>parse\<close> returns the text \<open>3 +\<close>, and
  \<open>parseInt\<close> reads the 3 it starts with: the count is 3, not 0, and the update builds
  the keys 1, 2 and 3.
\<close>

theorem forUpdate_failed_parse_renders:
  "presult (parse failing (VStr (trim ''3 +'')) [] []) = VStr ''3 +''
   \<and> forCount objectString (presult (parse failing (VStr (trim ''3 +'')) [] [])) = 3
   \<and> map fst (nodeCache (forUpdate failing objectString ''3 +'' [] [] ''index'' 1 forInit))
       = [1, 2, 3]
   \<and> children (forUpdate failing objectString ''3 +'' [] [] ''index'' 1 forInit) = [0, 2, 4]"
  by code_simp

end
